theory Spec2Isabelle
  imports Complex_Main "HOL-Library.AList"
begin

section \<open>Python values and exceptions\<close>

text \<open>
  The program is one Python module, \<^verbatim>\<open>public_ip_poster.py\<close>. A Python \<^verbatim>\<open>str\<close> is a
  sequence of code points; a \<^typ>\<open>string\<close> here is a list of \<^typ>\<open>char\<close>, read as the
  code points U+0000 to U+00FF. Strings with code points above U+00FF are outside the
  model. Exceptions are values: a function that can raise returns \<open>pyerror + 'a\<close>.
  \<open>TransportError\<close> stands for whatever the SSH client, the copy or the socket under
  them raises.
\<close>

datatype pyerror =
    KeyError | TypeError | ValueError | OverflowError | OSError | IOError | JSONDecodeError
  | TransportError

section \<open>The validator\<close>

text \<open>
  \<^verbatim>\<open>str.isdigit\<close> holds for a non-empty string of characters whose Unicode numeric type is
  Decimal or Digit. Below U+0100 these are the ten ASCII digits (Decimal) and the
  superscripts U+00B2, U+00B3 and U+00B9 (Digit). \<^verbatim>\<open>int\<close> converts Decimal characters
  only and raises \<^verbatim>\<open>ValueError\<close> on any other one; it is modelled on the strings it is
  called with here, the ones \<^verbatim>\<open>isdigit\<close> lets through. It also raises
  \<^verbatim>\<open>ValueError\<close> on a string of more than 4300 digits, leading zeros counted: the
  interpreter's default limit on the conversion of a string to an \<^verbatim>\<open>int\<close>.
\<close>

definition isdecimal_char :: "char \<Rightarrow> bool" where
  "isdecimal_char c = (c \<in> set ''0123456789'')"

definition isdigit_char :: "char \<Rightarrow> bool" where
  "isdigit_char c = (isdecimal_char c \<or> c \<in> set [CHR 0xB2, CHR 0xB3, CHR 0xB9])"

definition isdigit :: "string \<Rightarrow> bool" where
  "isdigit s = (s \<noteq> [] \<and> list_all isdigit_char s)"

definition digit_value :: "char \<Rightarrow> int" where
  "digit_value c = int (of_char c) - 48"

definition decimal_value :: "string \<Rightarrow> int" where
  "decimal_value s = foldl (\<lambda>acc c. 10 * acc + digit_value c) 0 s"

definition int_max_str_digits :: nat where
  "int_max_str_digits = 4300"

definition py_int :: "string \<Rightarrow> pyerror + int" where
  "py_int s =
     (if s \<noteq> [] \<and> list_all isdecimal_char s \<and> length s \<le> int_max_str_digits
      then Inr (decimal_value s)
      else Inl ValueError)"

text \<open>\<^verbatim>\<open>s.split(sep)\<close> for a one-character separator: never empty, one more part than
  there are separators.\<close>

fun split :: "char \<Rightarrow> string \<Rightarrow> string list" where
  "split sep [] = [[]]"
| "split sep (c # cs) =
     (if c = sep then [] # split sep cs
      else (case split sep cs of p # ps \<Rightarrow> (c # p) # ps | [] \<Rightarrow> [[c]]))"

text \<open>The generator under \<^verbatim>\<open>all(...)\<close> on line 40: \<^verbatim>\<open>and\<close> and \<^verbatim>\<open>all\<close> both stop at
  the first false value, so \<^verbatim>\<open>int(part)\<close> runs only on a part that passed \<^verbatim>\<open>isdigit\<close>,
  and no part after a rejected one is looked at.\<close>

fun all_parts_valid :: "string list \<Rightarrow> pyerror + bool" where
  "all_parts_valid [] = Inr True"
| "all_parts_valid (part # parts) =
     (if isdigit part then
        (case py_int part of
           Inl e \<Rightarrow> Inl e
         | Inr n \<Rightarrow> if 0 \<le> n \<and> n \<le> 255 then all_parts_valid parts else Inr False)
      else Inr False)"

definition validate_ip :: "string \<Rightarrow> pyerror + bool" where
  "validate_ip ip_address =
     (let parts = split CHR ''.'' ip_address in
      if length parts \<noteq> 4 then Inr False
      else (case all_parts_valid parts of
              Inl e \<Rightarrow> Inl e
            | Inr ok \<Rightarrow> if \<not> ok then Inr False else Inr True))"


section \<open>JSON documents\<close>

text \<open>
  What \<^verbatim>\<open>json.load\<close> returns. An object is kept as its list of members in document
  order, looked up by key. \<^verbatim>\<open>json.load\<close> reads the literals \<^verbatim>\<open>NaN\<close>, \<^verbatim>\<open>Infinity\<close>
  and \<^verbatim>\<open>-Infinity\<close> too: \<open>JNaN\<close> and \<open>JInfinity\<close> (either sign). A finite
  \<^verbatim>\<open>float\<close> is the real number it denotes.
\<close>

datatype json =
    JNull | JBool bool | JInt int | JFloat real | JNaN | JInfinity
  | JStr string | JArr "json list" | JObj "(string \<times> json) list"

text \<open>Truth value of an object in a condition (\<^verbatim>\<open>if x:\<close>).\<close>

fun truthy :: "json \<Rightarrow> bool" where
  "truthy JNull = False"
| "truthy (JBool b) = b"
| "truthy (JInt n) = (n \<noteq> 0)"
| "truthy (JFloat x) = (x \<noteq> 0)"
| "truthy JNaN = True"
| "truthy JInfinity = True"
| "truthy (JStr s) = (s \<noteq> [])"
| "truthy (JArr xs) = (xs \<noteq> [])"
| "truthy (JObj kvs) = (kvs \<noteq> [])"

text \<open>A function that returns either a document or \<^verbatim>\<open>None\<close> returns a
  \<^typ>\<open>json option\<close>; \<^verbatim>\<open>None\<close> is false in a condition.\<close>

fun truthy_opt :: "json option \<Rightarrow> bool" where
  "truthy_opt None = False"
| "truthy_opt (Some j) = truthy j"

text \<open>\<^verbatim>\<open>x[key]\<close> with a string key: \<^verbatim>\<open>KeyError\<close> on a dict without the key,
  \<^verbatim>\<open>TypeError\<close> on anything that is not a dict.\<close>

fun subscript :: "json \<Rightarrow> string \<Rightarrow> pyerror + json" where
  "subscript (JObj kvs) key = (case map_of kvs key of None \<Rightarrow> Inl KeyError | Some v \<Rightarrow> Inr v)"
| "subscript j key = Inl TypeError"

fun py_len :: "json \<Rightarrow> pyerror + int" where
  "py_len (JStr s) = Inr (int (length s))"
| "py_len (JArr xs) = Inr (int (length xs))"
| "py_len (JObj kvs) = Inr (int (length kvs))"
| "py_len j = Inl TypeError"

text \<open>What a \<^verbatim>\<open>for\<close> loop runs over: the elements of a list, the keys of a dict, the
  characters of a string.\<close>

fun py_iter :: "json \<Rightarrow> pyerror + json list" where
  "py_iter (JArr xs) = Inr xs"
| "py_iter (JObj kvs) = Inr (map (\<lambda>kv. JStr (fst kv)) kvs)"
| "py_iter (JStr s) = Inr (map (\<lambda>c. JStr [c]) s)"
| "py_iter j = Inl TypeError"

section \<open>The world the program runs in\<close>

text \<open>
  A path of the file system holds a directory, a file that cannot be opened, a file that
  is not JSON, or a JSON document; every node has a last-modified time. \<open>writable\<close>
  says whether the process may create or overwrite a path. \<open>tm_ok\<close> is the set of
  times the platform's C \<^verbatim>\<open>localtime\<close> converts. \<open>float_sub\<close> is the subtraction of
  the machine's floats, which rounds its result (an \<^verbatim>\<open>int\<close> or \<^verbatim>\<open>bool\<close> operand is
  converted to a float first); the model does not fix it. \<open>http\<close> is what a GET of a URL gives
  during the run, \<open>ssh_connect\<close> and \<open>scp_put\<close> whether the transport succeeds.
  \<open>logged\<close> collects every call of the \<^verbatim>\<open>logging\<close> module, with its level, its
  message text and its arguments (which of them the handlers print depends on the level
  set by \<^verbatim>\<open>--verbose\<close>).
\<close>

datatype fcontent = Directory | Unreadable | Malformed | Doc json

record fnode =
  content :: fcontent
  mtime :: real

datatype http_reply = RequestException | Response string

datatype level = DEBUG | INFO | WARNING | ERROR

datatype logarg = S string | N int | R real | J json | X pyerror

type_synonym log_record = "level \<times> string \<times> logarg list"

record world =
  clock :: real
  files :: "string \<Rightarrow> fnode option"
  writable :: "string \<Rightarrow> bool"
  tm_ok :: "real \<Rightarrow> bool"
  float_sub :: "real \<Rightarrow> real \<Rightarrow> real"
  http :: "string \<Rightarrow> http_reply"
  ssh_connect :: "json \<Rightarrow> bool"
  scp_put :: "json \<Rightarrow> string \<Rightarrow> string \<Rightarrow> bool"
  logged :: "log_record list"

text \<open>How a call ends: it returns a value, an exception leaves it, or the process is
  ended by \<^verbatim>\<open>os._exit(-1)\<close>. Each carries the world as the call left it.\<close>

datatype 'a outcome = Returns 'a world | Raises pyerror world | Exits world

definition then_do :: "'a outcome \<Rightarrow> ('a \<Rightarrow> world \<Rightarrow> 'b outcome) \<Rightarrow> 'b outcome" where
  "then_do r f = (case r of Returns x w \<Rightarrow> f x w | Raises e w \<Rightarrow> Raises e w | Exits w \<Rightarrow> Exits w)"

text \<open>What a call returned, if it returned, the exception that left it, if one did, and
  the world it left.\<close>

fun returned :: "'a outcome \<Rightarrow> 'a option" where
  "returned (Returns x w) = Some x"
| "returned (Raises e w) = None"
| "returned (Exits w) = None"

fun raised :: "'a outcome \<Rightarrow> pyerror option" where
  "raised (Returns x w) = None"
| "raised (Raises e w) = Some e"
| "raised (Exits w) = None"

fun world_of :: "'a outcome \<Rightarrow> world" where
  "world_of (Returns x w) = w"
| "world_of (Raises e w) = w"
| "world_of (Exits w) = w"

definition logging :: "level \<Rightarrow> string \<Rightarrow> logarg list \<Rightarrow> world \<Rightarrow> world" where
  "logging lvl msg margs w = w\<lparr>logged := logged w @ [(lvl, msg, margs)]\<rparr>"

definition path_exists :: "string \<Rightarrow> world \<Rightarrow> bool" where
  "path_exists path w = (files w path \<noteq> None)"

text \<open>\<^verbatim>\<open>open(path, "r")\<close> followed by \<^verbatim>\<open>json.load\<close>.\<close>

definition load_json :: "string \<Rightarrow> world \<Rightarrow> pyerror + json" where
  "load_json path w =
     (case files w path of
        None \<Rightarrow> Inl IOError
      | Some node \<Rightarrow>
          (case content node of
             Directory \<Rightarrow> Inl IOError
           | Unreadable \<Rightarrow> Inl IOError
           | Malformed \<Rightarrow> Inl JSONDecodeError
           | Doc j \<Rightarrow> Inr j))"

definition getmtime :: "string \<Rightarrow> world \<Rightarrow> pyerror + real" where
  "getmtime path w = (case files w path of None \<Rightarrow> Inl OSError | Some node \<Rightarrow> Inr (mtime node))"

text \<open>\<^verbatim>\<open>time.localtime(t)\<close>: \<^verbatim>\<open>OverflowError\<close> outside the range of \<^verbatim>\<open>time_t\<close> (64 bits
  at most), \<^verbatim>\<open>OSError\<close> when the C function refuses the value.\<close>

definition localtime :: "real \<Rightarrow> world \<Rightarrow> pyerror + unit" where
  "localtime t w =
     (if t < - (2 ^ 63) \<or> 2 ^ 63 \<le> t then Inl OverflowError
      else if tm_ok w t then Inr () else Inl OSError)"

section \<open>The cache store\<close>

definition cache_record :: "real \<Rightarrow> (string \<times> string) list \<Rightarrow> json" where
  "cache_record timestamp ip_list =
     JObj [(''timestamp'', JFloat timestamp),
           (''services'', JObj (map (\<lambda>kv. (fst kv, JStr (snd kv))) ip_list))]"

text \<open>Lines 88 to 100. \<^verbatim>\<open>open(cache_file, "w")\<close> raises \<^verbatim>\<open>IOError\<close> on a path that is
  not writable, which is caught and logged; otherwise the file holds the record, and is
  last modified at the time of the call.\<close>

definition save_ip_list_to_cache ::
    "string \<Rightarrow> (string \<times> string) list \<Rightarrow> world \<Rightarrow> unit outcome" where
  "save_ip_list_to_cache cache_file ip_list w =
     (let timestamp = clock w;
          cache_json = cache_record timestamp ip_list
      in if writable w cache_file then
           Returns ()
             (logging INFO ''Saved public IP list to cache file at {}'' [S cache_file]
                (w\<lparr>files := (files w)(cache_file \<mapsto>
                      \<lparr>content = Doc cache_json, mtime = clock w\<rparr>)\<rparr>))
         else
           Returns () (logging ERROR ''Failed to write to cache file: {}'' [X IOError] w))"

text \<open>Lines 113 to 120: the stored \<^verbatim>\<open>timestamp\<close> when it is true in a condition, the
  file's last-modified time otherwise. The subscript raises when the record is not a
  dict or has no such key.\<close>

definition cache_timestamp_of :: "string \<Rightarrow> json \<Rightarrow> world \<Rightarrow> json outcome" where
  "cache_timestamp_of cache_file json_cache w =
     (case subscript json_cache ''timestamp'' of
        Inl e \<Rightarrow> Raises e w
      | Inr stored \<Rightarrow>
          if truthy stored then
            Returns stored (logging INFO ''Cache has timestamp {}'' [J stored] w)
          else
            (case getmtime cache_file w of
               Inl e \<Rightarrow> Raises e (logging INFO ''Did not find timestamp field in cache'' [] w)
             | Inr m \<Rightarrow>
                 Returns (JFloat m) (logging INFO ''Did not find timestamp field in cache'' [] w)))"

text \<open>Line 124 builds its message before \<^verbatim>\<open>logging.debug\<close> looks at the level: it
  formats the timestamp with \<^verbatim>\<open>:.2f\<close> and converts it with \<^verbatim>\<open>localtime\<close>. A string
  has no such format (\<^verbatim>\<open>ValueError\<close>), a list, a dict or \<^verbatim>\<open>None\<close> neither
  (\<^verbatim>\<open>TypeError\<close>); \<^verbatim>\<open>localtime\<close> refuses a NaN (\<^verbatim>\<open>ValueError\<close>) and an infinity
  (\<^verbatim>\<open>OverflowError\<close>). An \<^verbatim>\<open>int\<close> too large for a float fails in the format with the
  \<^verbatim>\<open>OverflowError\<close> that \<^verbatim>\<open>localtime\<close> gives it here. The result is the timestamp as
  a number; \<^verbatim>\<open>True\<close> counts as 1.\<close>

fun timestamp_number :: "json \<Rightarrow> world \<Rightarrow> pyerror + real" where
  "timestamp_number (JBool b) w =
     (case localtime (if b then 1 else 0) w of Inl e \<Rightarrow> Inl e | Inr u \<Rightarrow> Inr (if b then 1 else 0))"
| "timestamp_number (JInt n) w =
     (case localtime (real_of_int n) w of Inl e \<Rightarrow> Inl e | Inr u \<Rightarrow> Inr (real_of_int n))"
| "timestamp_number (JFloat x) w =
     (case localtime x w of Inl e \<Rightarrow> Inl e | Inr u \<Rightarrow> Inr x)"
| "timestamp_number JNaN w = Inl ValueError"
| "timestamp_number JInfinity w = Inl OverflowError"
| "timestamp_number (JStr s) w = Inl ValueError"
| "timestamp_number (JArr xs) w = Inl TypeError"
| "timestamp_number (JObj kvs) w = Inl TypeError"
| "timestamp_number JNull w = Inl TypeError"

text \<open>Lines 122 to 141, once the timestamp is chosen. The age is the rounded
  difference of two floats, compared with the integer TTL as numbers. The file is read
  a second time when the cache is fresh; only an \<^verbatim>\<open>IOError\<close> of that second read is
  caught.\<close>

definition check_age :: "string \<Rightarrow> int \<Rightarrow> json \<Rightarrow> world \<Rightarrow> json option outcome" where
  "check_age cache_file ttl cache_timestamp w =
     (let current_time = clock w in
      case localtime current_time w of
        Inl e \<Rightarrow> Raises e w
      | Inr u \<Rightarrow>
          (let w1 = logging DEBUG ''current_time: {} - {}'' [R current_time] w in
           case timestamp_number cache_timestamp w1 of
             Inl e \<Rightarrow> Raises e w1
           | Inr t \<Rightarrow>
               (let w2 = logging DEBUG ''cache_timestamp: {} - {}'' [R t] w1;
                    cache_age = float_sub w current_time t
                in if cache_age < real_of_int ttl then
                     (let w3 = logging INFO ''Cache file is valid, age {}'' [R cache_age] w2 in
                      case load_json cache_file w3 of
                        Inr cached_ips \<Rightarrow> Returns (Some cached_ips) w3
                      | Inl e \<Rightarrow>
                          if e = IOError then
                            Returns None
                              (logging ERROR ''Failed to read from cache file: {}'' [X e] w3)
                          else Raises e w3)
                   else
                     Returns None
                       (logging INFO ''Cache file is stale, older than {} seconds'' [N ttl] w2))))"

text \<open>Lines 103 to 141.\<close>

definition check_cache_staleness :: "string \<Rightarrow> int \<Rightarrow> world \<Rightarrow> json option outcome" where
  "check_cache_staleness cache_file ttl w =
     (if path_exists cache_file w then
        (case load_json cache_file w of
           Inl e \<Rightarrow> Raises e w
         | Inr json_cache \<Rightarrow>
             then_do (cache_timestamp_of cache_file json_cache w) (check_age cache_file ttl))
      else
        Returns None (logging INFO ''No cache file found at {}'' [S cache_file] w))"

section \<open>The resolver\<close>

text \<open>\<^verbatim>\<open>str.strip()\<close> removes the characters for which \<^verbatim>\<open>isspace\<close> holds from both
  ends; below U+0100 these are U+0009 to U+000D, U+001C to U+0020, U+0085 and U+00A0.\<close>

definition isspace :: "char \<Rightarrow> bool" where
  "isspace c = (of_char c \<in> set [9, 10, 11, 12, 13, 28, 29, 30, 31, 32, 133, 160 :: nat])"

definition strip :: "string \<Rightarrow> string" where
  "strip s = rev (dropWhile isspace (rev (dropWhile isspace s)))"

definition PUBLIC_IP_SERVICE_URL_LIST :: "string list" where
  "PUBLIC_IP_SERVICE_URL_LIST = [''https://ipinfo.io/ip'', ''https://checkip.amazonaws.com'']"

text \<open>Lines 51 to 62, the body of the loop, for one service. A failed request or a bad
  status is a \<^verbatim>\<open>requests.RequestException\<close>, the only exception caught: a
  \<^verbatim>\<open>ValueError\<close> from \<^verbatim>\<open>validate_ip\<close> leaves the function. The dict is a list of
  pairs in insertion order; storing under a key already there replaces its value.\<close>

definition query_service ::
    "string \<Rightarrow> (string \<times> string) list \<Rightarrow> world \<Rightarrow> (string \<times> string) list outcome" where
  "query_service service_url public_ip_list w =
     (let w1 = logging INFO ''Attempting to retrieve public IP from {}'' [S service_url] w in
      case http w1 service_url of
        RequestException \<Rightarrow>
          Returns public_ip_list
            (logging WARNING ''Could not retrieve IP from {}'' [S service_url] w1)
      | Response text \<Rightarrow>
          (let ip_address = strip text in
           if ip_address \<noteq> [] then
             (case validate_ip ip_address of
                Inl e \<Rightarrow> Raises e w1
              | Inr valid \<Rightarrow>
                  if valid then
                    Returns (AList.update service_url ip_address public_ip_list)
                      (logging INFO ''Retrieved public IP: {} from {}''
                         [S ip_address, S service_url] w1)
                  else Returns public_ip_list w1)
           else Returns public_ip_list w1))"

text \<open>Lines 48 to 64 for any list of services; the program runs it on its constant.\<close>

fun get_public_ip_from ::
    "string list \<Rightarrow> (string \<times> string) list \<Rightarrow> world \<Rightarrow> (string \<times> string) list outcome" where
  "get_public_ip_from [] public_ip_list w = Returns public_ip_list w"
| "get_public_ip_from (service_url # rest) public_ip_list w =
     then_do (query_service service_url public_ip_list w) (get_public_ip_from rest)"

definition get_public_ip :: "world \<Rightarrow> (string \<times> string) list outcome" where
  "get_public_ip w = get_public_ip_from PUBLIC_IP_SERVICE_URL_LIST [] w"

section \<open>The dispatcher\<close>

text \<open>\<^verbatim>\<open>os.path.basename\<close>: what follows the last slash.\<close>

definition basename :: "string \<Rightarrow> string" where
  "basename path = rev (takeWhile (\<lambda>c. c \<noteq> CHR ''/'') (rev path))"

text \<open>Lines 161 to 173, the body of the \<^verbatim>\<open>try\<close>: the exception that leaves it, or the
  host and the remote path of the uploaded file.\<close>

definition scp_upload :: "json \<Rightarrow> string \<Rightarrow> world \<Rightarrow> pyerror + json \<times> string" where
  "scp_upload op cache_file w =
     (case subscript op ''host'' of Inl e \<Rightarrow> Inl e | Inr host \<Rightarrow>
      case subscript op ''port'' of Inl e \<Rightarrow> Inl e | Inr port \<Rightarrow>
      case subscript op ''username'' of Inl e \<Rightarrow> Inl e | Inr username \<Rightarrow>
      case subscript op ''identity_file'' of Inl e \<Rightarrow> Inl e | Inr key_filename \<Rightarrow>
      if \<not> ssh_connect w op then Inl TransportError
      else
       (case subscript op ''remote_dir'' of
          Inl e \<Rightarrow> Inl e
        | Inr (JStr remote_dir) \<Rightarrow>
            (let remote_file = remote_dir @ ''/'' @ basename cache_file in
             if scp_put w op cache_file remote_file then Inr (host, remote_file)
             else Inl TransportError)
        | Inr other \<Rightarrow> Inl TypeError))"

text \<open>Lines 153 to 180. \<^verbatim>\<open>op["name"]\<close> is read before the \<^verbatim>\<open>try\<close>; every exception
  of the \<^verbatim>\<open>try\<close> is caught and logged.\<close>

definition run_destination_op_scp :: "json \<Rightarrow> string \<Rightarrow> world \<Rightarrow> unit outcome" where
  "run_destination_op_scp op cache_file w =
     (case subscript op ''name'' of
        Inl e \<Rightarrow> Raises e w
      | Inr name \<Rightarrow>
          (let w1 = logging INFO ''Executing operation %s'' [J name] w in
           case scp_upload op cache_file w1 of
             Inr (host, remote_file) \<Rightarrow>
               Returns ()
                 (logging INFO ''Uploaded %s to remote %s:%s''
                    [S cache_file, J host, S remote_file] w1)
           | Inl e \<Rightarrow>
               Returns ()
                 (logging ERROR ''{}'' [X e]
                    (logging ERROR ''Failed to upload to remote'' [] w1))))"

text \<open>Lines 144 to 150. The warning is built with \<^verbatim>\<open>+\<close>, which raises
  \<^verbatim>\<open>TypeError\<close> when \<^verbatim>\<open>op["type"]\<close> is not a string.\<close>

definition run_destination_op :: "json \<Rightarrow> string \<Rightarrow> world \<Rightarrow> unit outcome" where
  "run_destination_op op cache_file w =
     (case subscript op ''type'' of
        Inl e \<Rightarrow> Raises e w
      | Inr type \<Rightarrow>
          if type = JStr ''scp'' then run_destination_op_scp op cache_file w
          else
            (case type of
               JStr t \<Rightarrow>
                 Returns ()
                   (logging DEBUG ''{}'' [J op]
                      (logging WARNING (''Don't have option for '' @ t) [] w))
             | other \<Rightarrow> Raises TypeError w))"

text \<open>Lines 272 to 274: the loop over the destinations.\<close>

fun dispatch :: "json list \<Rightarrow> string \<Rightarrow> world \<Rightarrow> unit outcome" where
  "dispatch [] cache_file w = Returns () w"
| "dispatch (dest # rest) cache_file w =
     then_do (run_destination_op dest cache_file w) (\<lambda>u. dispatch rest cache_file)"

section \<open>The orchestrator\<close>

text \<open>The parsed command line.\<close>

record args =
  args_config :: string
  args_log_file :: string
  args_verbose :: bool
  args_cache_dir :: string
  args_cache_ttl :: int
  args_cache_file :: string
  args_ignore_cache :: bool

text \<open>Lines 26 to 34: only the \<^verbatim>\<open>IOError\<close> of opening the file is caught.\<close>

definition read_config_file :: "string \<Rightarrow> world \<Rightarrow> json option outcome" where
  "read_config_file config_file w =
     (case load_json config_file w of
        Inr config_dict \<Rightarrow> Returns (Some config_dict) w
      | Inl e \<Rightarrow>
          if e = IOError then
            Returns None (logging ERROR ''Failed to read from cache file: {}'' [X e] w)
          else Raises e w)"

text \<open>Lines 67 to 76: the file handler opens the log file for appending. The node of
  the log file itself is not kept in \<open>files\<close>.\<close>

definition setup_logging :: "string \<Rightarrow> bool \<Rightarrow> world \<Rightarrow> unit outcome" where
  "setup_logging log_file verbose w =
     (if writable w log_file then Returns () w else Raises IOError w)"

text \<open>Lines 79 to 85.\<close>

definition setup_cache_dir :: "string \<Rightarrow> world \<Rightarrow> unit outcome" where
  "setup_cache_dir cache_dir w =
     (if \<not> path_exists cache_dir w then
        (if writable w cache_dir then
           Returns ()
             (logging INFO ''Created cache directory at {}'' [S cache_dir]
                (w\<lparr>files := (files w)(cache_dir \<mapsto>
                      \<lparr>content = Directory, mtime = clock w\<rparr>)\<rparr>))
         else Raises OSError w)
      else
        Returns () (logging INFO ''Using existing cache directory at {}'' [S cache_dir] w))"

text \<open>Lines 255 to 264: the branch that asks the services and writes the cache.\<close>

definition resolve_and_save :: "args \<Rightarrow> world \<Rightarrow> unit outcome" where
  "resolve_and_save a w =
     then_do (get_public_ip w) (\<lambda>public_ip_list w1.
       let w2 = logging INFO ''Retrieved {} public IP addresses''
                  [N (int (length public_ip_list))] w1;
           w3 = logging DEBUG ''Public IP addresses: {}'' [] w2
       in if public_ip_list = [] then
            Exits (logging ERROR
              ''Could not retrieve public IP address from any service, exiting'' [] w3)
          else
            save_ip_list_to_cache (args_cache_file a) public_ip_list
              (logging DEBUG ''Attempting to save to cache file {}'' [S (args_cache_file a)] w3))"

text \<open>Lines 248 to 264: the cache is loaded first, whatever the flags; the flag is
  looked at afterwards, in the condition on what the load returned. (\<^verbatim>\<open>None\<close> is false
  in the condition, so the branch for it under the condition is never taken; the same
  holds for the configuration in \<open>main\<close> below.)\<close>

definition refresh_public_ips :: "args \<Rightarrow> world \<Rightarrow> unit outcome" where
  "refresh_public_ips a w =
     then_do (check_cache_staleness (args_cache_file a) (args_cache_ttl a) w)
       (\<lambda>public_ip_list w1.
          if truthy_opt public_ip_list \<and> \<not> args_ignore_cache a then
            (case public_ip_list of
               None \<Rightarrow> Raises TypeError w1
             | Some cached \<Rightarrow>
                 (let w2 = logging INFO ''Using cached public IP addresses'' [] w1 in
                  case py_len cached of
                    Inl e \<Rightarrow> Raises e w2
                  | Inr n \<Rightarrow>
                      Returns ()
                        (logging DEBUG ''{}'' [J cached] (logging DEBUG ''Got {}'' [N n] w2))))
          else resolve_and_save a w1)"

text \<open>Lines 270 to 277.\<close>

definition publish :: "json \<Rightarrow> args \<Rightarrow> world \<Rightarrow> unit outcome" where
  "publish config_dict a w =
     (case subscript config_dict ''destination_list'' of
        Inl e \<Rightarrow> Raises e w
      | Inr dest_list \<Rightarrow>
          (case py_len dest_list of
             Inl e \<Rightarrow> Raises e w
           | Inr n \<Rightarrow>
               (let w1 = logging INFO ''Got %d destinations'' [N n] w in
                case py_iter dest_list of
                  Inl e \<Rightarrow> Raises e w1
                | Inr dests \<Rightarrow>
                    then_do (dispatch dests (args_cache_file a) w1) (\<lambda>u w2.
                      Returns () (logging INFO ''public_ip_poster finished'' [] w2)))))"

text \<open>Lines 232 to 277 of \<^verbatim>\<open>main\<close>, after the command line is parsed.\<close>

definition main :: "args \<Rightarrow> world \<Rightarrow> unit outcome" where
  "main a w =
     then_do (setup_logging (args_log_file a) (args_verbose a) w) (\<lambda>u w1.
       let w2 = logging INFO ''public_ip_poster starting'' [] w1;
           w3 = logging DEBUG ''{}'' [] w2;
           w4 = logging INFO ''Using configuration file: {}'' [S (args_config a)] w3
       in then_do (read_config_file (args_config a) w4) (\<lambda>config_dict w5.
            let w6 = logging DEBUG ''{}'' [] w5 in
            if \<not> truthy_opt config_dict then
              Exits (logging ERROR ''Could not read config file from {}'' [S (args_config a)] w6)
            else
              (case config_dict of
                 None \<Rightarrow> Exits w6
               | Some config \<Rightarrow>
                   then_do (setup_cache_dir (args_cache_dir a) w6) (\<lambda>u w7.
                     then_do (refresh_public_ips a w7) (\<lambda>u w8.
                       publish config a w8)))))"

section \<open>The specification's words\<close>

text \<open>A segment the specification accepts: all decimal digits, with a value from 0 to
  255. An address is four of them, separated by dots. The segments the code accepts
  are the ones of at most 4300 digits among them.\<close>

definition octet :: "string \<Rightarrow> bool" where
  "octet seg = (seg \<noteq> [] \<and> list_all isdecimal_char seg \<and>
                0 \<le> decimal_value seg \<and> decimal_value seg \<le> 255)"

definition dotted_quad :: "string \<Rightarrow> bool" where
  "dotted_quad s =
     (\<exists>a b c d. s = a @ ''.'' @ b @ ''.'' @ c @ ''.'' @ d \<and>
        octet a \<and> octet b \<and> octet c \<and> octet d)"

definition short_octet :: "string \<Rightarrow> bool" where
  "short_octet seg = (octet seg \<and> length seg \<le> int_max_str_digits)"

definition accepted_quad :: "string \<Rightarrow> bool" where
  "accepted_quad s =
     (\<exists>a b c d. s = a @ ''.'' @ b @ ''.'' @ c @ ''.'' @ d \<and>
        short_octet a \<and> short_octet b \<and> short_octet c \<and> short_octet d)"

text \<open>What a reply adds to the resolver's mapping: the body without the whitespace
  around it, when that is not empty and is a valid address. \<open>validator_decides\<close>
  holds when the validator, if it is asked at all, returns a boolean for the reply. A
  stored value has no surrounding whitespace when neither its first nor its last
  character is white.\<close>

definition answer :: "http_reply \<Rightarrow> string option" where
  "answer reply =
     (case reply of
        RequestException \<Rightarrow> None
      | Response text \<Rightarrow>
          if strip text \<noteq> [] \<and> validate_ip (strip text) = Inr True then Some (strip text)
          else None)"

definition validator_decides :: "http_reply \<Rightarrow> bool" where
  "validator_decides reply =
     (case reply of
        RequestException \<Rightarrow> True
      | Response text \<Rightarrow>
          (case validate_ip (strip text) of Inl e \<Rightarrow> strip text = [] | Inr b \<Rightarrow> True))"


text \<open>A destination of the configuration as the specification describes it: an object
  with a \<^verbatim>\<open>type\<close> tag that is a string, and with a \<^verbatim>\<open>name\<close> when the tag is
  \<^verbatim>\<open>"scp"\<close>. What the dispatcher is to log for one: for an unknown tag a warning that
  names it (and the destination at debug level); for \<^verbatim>\<open>"scp"\<close> the start of the
  operation, then either the upload or the failure with its exception.\<close>

definition well_formed_destination :: "json \<Rightarrow> bool" where
  "well_formed_destination d =
     (case subscript d ''type'' of
        Inl e \<Rightarrow> False
      | Inr (JStr t) \<Rightarrow>
          (if t = ''scp'' then (case subscript d ''name'' of Inl e \<Rightarrow> False | Inr n \<Rightarrow> True)
           else True)
      | Inr other \<Rightarrow> False)"

definition destination_log :: "json \<Rightarrow> string \<Rightarrow> world \<Rightarrow> log_record list" where
  "destination_log d cache_file w =
     (case subscript d ''type'' of
        Inl e \<Rightarrow> []
      | Inr (JStr t) \<Rightarrow>
          (if t = ''scp'' then
             (case subscript d ''name'' of
                Inl e \<Rightarrow> []
              | Inr name \<Rightarrow>
                  (INFO, ''Executing operation %s'', [J name]) #
                  (case scp_upload d cache_file w of
                     Inr (host, remote_file) \<Rightarrow>
                       [(INFO, ''Uploaded %s to remote %s:%s'',
                         [S cache_file, J host, S remote_file])]
                   | Inl e \<Rightarrow>
                       [(ERROR, ''Failed to upload to remote'', []), (ERROR, ''{}'', [X e])]))
           else
             [(WARNING, ''Don't have option for '' @ t, []), (DEBUG, ''{}'', [J d])])
      | Inr other \<Rightarrow> [])"

text \<open>Two worlds that agree on the clock, the files, the permissions, the platform and
  the services.\<close>

definition same_environment :: "world \<Rightarrow> world \<Rightarrow> bool" where
  "same_environment w w' =
     (clock w' = clock w \<and> files w' = files w \<and> writable w' = writable w \<and>
      tm_ok w' = tm_ok w \<and> float_sub w' = float_sub w \<and> http w' = http w)"

section \<open>Example runs\<close>

text \<open>A world without files, in which no service and no host answers. Its clock and
  the times of the examples are whole numbers of seconds well below \<open>2 ^ 53\<close>, on
  which the subtraction of floats is exact.\<close>

definition quiet_world :: world where
  "quiet_world =
     \<lparr>clock = 5000, files = (\<lambda>p. None), writable = (\<lambda>p. True), tm_ok = (\<lambda>t. True),
      float_sub = (\<lambda>x y. x - y),
      http = (\<lambda>u. RequestException), ssh_connect = (\<lambda>d. False),
      scp_put = (\<lambda>d l r. False), logged = []\<rparr>"

definition cached_world :: "real \<Rightarrow> world" where
  "cached_world stamp =
     quiet_world\<lparr>files := (\<lambda>p. None)(''cache.json'' \<mapsto>
        \<lparr>content = Doc (cache_record stamp [(''https://ipinfo.io/ip'', ''10.0.0.1'')]),
         mtime = stamp\<rparr>)\<rparr>"

definition no_timestamp_world :: world where
  "no_timestamp_world =
     quiet_world\<lparr>files := (\<lambda>p. None)(''cache.json'' \<mapsto>
        \<lparr>content = Doc (JObj [(''services'', JObj [(''https://ipinfo.io/ip'', JStr ''10.0.0.1'')])]),
         mtime = 4900\<rparr>)\<rparr>"

text \<open>A run in which the first service answers with an address and a newline after it,
  and the second one cannot be reached.\<close>

definition newline_world :: world where
  "newline_world =
     quiet_world\<lparr>http := (\<lambda>u. if u = ''https://ipinfo.io/ip''
                               then Response (''1.2.3.4'' @ [CHR 0x0A])
                               else RequestException)\<rparr>"

text \<open>Destinations: one of an unknown type, one whose tag is a number, and a complete
  \<^verbatim>\<open>scp\<close> one (which \<open>quiet_world\<close> refuses to connect to).\<close>

definition ftp_destination :: json where
  "ftp_destination = JObj [(''type'', JStr ''ftp'')]"

definition numbered_destination :: json where
  "numbered_destination = JObj [(''type'', JInt 5)]"

definition scp_destination :: json where
  "scp_destination =
     JObj [(''type'', JStr ''scp''), (''name'', JStr ''home''), (''host'', JStr ''example.org''),
           (''port'', JInt 22), (''username'', JStr ''me''), (''identity_file'', JStr ''id_rsa''),
           (''remote_dir'', JStr ''/srv'')]"

text \<open>A run with \<^verbatim>\<open>--ignore-cache\<close> and \<^verbatim>\<open>--cache-file cache.json\<close>: once where the
  cache file is not JSON, once where it holds a fresh record and the first service
  answers.\<close>

definition ignoring_args :: args where
  "ignoring_args =
     \<lparr>args_config = ''config.json'', args_log_file = ''public_ip_poster.log'',
      args_verbose = False, args_cache_dir = ''.public_ip_poster_cache'',
      args_cache_ttl = 3600, args_cache_file = ''cache.json'', args_ignore_cache = True\<rparr>"

definition corrupt_cache_world :: world where
  "corrupt_cache_world =
     quiet_world\<lparr>files := ((\<lambda>p. None)
        (''config.json'' \<mapsto> \<lparr>content = Doc (JObj [(''destination_list'', JArr [])]), mtime = 1\<rparr>,
         ''.public_ip_poster_cache'' \<mapsto> \<lparr>content = Directory, mtime = 1\<rparr>,
         ''cache.json'' \<mapsto> \<lparr>content = Malformed, mtime = 4900\<rparr>))\<rparr>"

definition fresh_cache_world :: world where
  "fresh_cache_world = (cached_world 4900)\<lparr>http := http newline_world\<rparr>"

text \<open>A run in which the first service answers with a superscript two in the place of
  the first number.\<close>

definition superscript_world :: world where
  "superscript_world =
     quiet_world\<lparr>http := (\<lambda>u. if u = ''https://ipinfo.io/ip''
                               then Response (CHR 0xB2 # ''.1.1.1'')
                               else RequestException)\<rparr>"

text \<open>Cache files for the freshness check, all read at time 5000: one stamped 1000 and
  last modified at 4900; one whose stamp is 0, last modified at 4900; one stamped
  \<open>2 ^ 63\<close>, far in the future.\<close>

definition touched_cache_world :: world where
  "touched_cache_world =
     quiet_world\<lparr>files := (\<lambda>p. None)(''cache.json'' \<mapsto>
        \<lparr>content = Doc (cache_record 1000 [(''https://ipinfo.io/ip'', ''10.0.0.1'')]),
         mtime = 4900\<rparr>)\<rparr>"

definition zero_stamp_world :: world where
  "zero_stamp_world =
     quiet_world\<lparr>files := (\<lambda>p. None)(''cache.json'' \<mapsto>
        \<lparr>content = Doc (cache_record 0 [(''https://ipinfo.io/ip'', ''10.0.0.1'')]),
         mtime = 4900\<rparr>)\<rparr>"

definition far_future_record :: json where
  "far_future_record =
     JObj [(''timestamp'', JInt (2 ^ 63)),
           (''services'', JObj [(''https://ipinfo.io/ip'', JStr ''10.0.0.1'')])]"

definition far_future_world :: world where
  "far_future_world =
     quiet_world\<lparr>files := (\<lambda>p. None)(''cache.json'' \<mapsto>
        \<lparr>content = Doc far_future_record, mtime = 4900\<rparr>)\<rparr>"

text \<open>The floats nearest to 3600.1 and to 0.1, as fractions. Their difference as
  numbers is below 3600; the machine's subtraction rounds it to 3600. In this world
  the clock shows the first, the cache file is stamped with the second, and
  \<open>float_sub\<close> is that rounding subtraction on the two.\<close>

definition float_3600_1 :: real where
  "float_3600_1 = 7916703622312755 / 2199023255552"

definition float_0_1 :: real where
  "float_0_1 = 3602879701896397 / 36028797018963968"

definition rounding_world :: world where
  "rounding_world =
     quiet_world\<lparr>clock := float_3600_1,
       files := (\<lambda>p. None)(''cache.json'' \<mapsto>
         \<lparr>content = Doc (cache_record float_0_1 [(''https://ipinfo.io/ip'', ''10.0.0.1'')]),
          mtime = float_0_1\<rparr>),
       float_sub := (\<lambda>x y. if x = float_3600_1 \<and> y = float_0_1 then 3600 else x - y)\<rparr>"

text \<open>A complete run with \<^verbatim>\<open>--ignore-cache\<close>: the configuration has no destination, the
  cache directory exists, the cache file holds a record stamped 100 seconds ago, and the
  first service answers.\<close>

definition fresh_run_world :: world where
  "fresh_run_world =
     quiet_world\<lparr>files := ((\<lambda>p. None)
        (''config.json'' \<mapsto> \<lparr>content = Doc (JObj [(''destination_list'', JArr [])]), mtime = 1\<rparr>,
         ''.public_ip_poster_cache'' \<mapsto> \<lparr>content = Directory, mtime = 1\<rparr>,
         ''cache.json'' \<mapsto>
           \<lparr>content = Doc (cache_record 4900 [(''https://ipinfo.io/ip'', ''10.0.0.1'')]),
            mtime = 4900\<rparr>)),
       http := http newline_world\<rparr>"

section \<open>Properties of the validator\<close>

lemma isdecimal_isdigit: "isdecimal_char c \<Longrightarrow> isdigit_char c"
  by (simp add: isdigit_char_def)

lemma list_all_decimal_digit: "list_all isdecimal_char s \<Longrightarrow> list_all isdigit_char s"
  by (induction s) (simp_all add: isdecimal_isdigit)

lemma octet_accepted:
  "short_octet part \<Longrightarrow> isdigit part \<and> py_int part = Inr (decimal_value part)"
  by (simp add: short_octet_def octet_def isdigit_def py_int_def list_all_decimal_digit)

lemma accepted_octet:
  assumes "isdigit part" "py_int part = Inr n" "0 \<le> n" "n \<le> 255"
  shows "short_octet part"
proof -
  from assms(2) have d: "part \<noteq> []" "list_all isdecimal_char part" "n = decimal_value part"
    "length part \<le> int_max_str_digits"
    by (simp_all add: py_int_def split: if_splits)
  with assms(3,4) show ?thesis by (simp add: short_octet_def octet_def)
qed

lemma all_parts_valid_True: "(all_parts_valid parts = Inr True) = list_all short_octet parts"
proof (induction parts)
  case Nil
  show ?case by simp
next
  case (Cons part parts)
  show ?case
  proof (cases "short_octet part")
    case True
    from octet_accepted [OF True] True have "all_parts_valid (part # parts) = all_parts_valid parts"
      by (simp add: short_octet_def octet_def)
    then show ?thesis using Cons.IH True by simp
  next
    case False
    have "all_parts_valid (part # parts) \<noteq> Inr True"
    proof
      assume a: "all_parts_valid (part # parts) = Inr True"
      then have dg: "isdigit part" by (simp split: if_splits)
      with a obtain n where n: "py_int part = Inr n" by (cases "py_int part") simp_all
      with a dg have "0 \<le> n \<and> n \<le> 255" by (simp split: if_splits)
      with dg n have "short_octet part" by (simp add: accepted_octet)
      with False show False by simp
    qed
    then show ?thesis using False by simp
  qed
qed

lemma isdecimal_not_dot: "isdecimal_char c \<Longrightarrow> c \<noteq> CHR ''.''"
  by (auto simp: isdecimal_char_def)

lemma octet_no_dot: "octet a \<Longrightarrow> CHR ''.'' \<notin> set a"
  using isdecimal_not_dot by (auto simp: octet_def list_all_iff)

lemma short_octet_no_dot: "short_octet a \<Longrightarrow> CHR ''.'' \<notin> set a"
  by (simp add: short_octet_def octet_no_dot)

lemma split_not_Nil: "split sep s \<noteq> []"
  by (induction s) (auto split: list.splits)

lemma split_no_sep: "sep \<notin> set a \<Longrightarrow> split sep a = [a]"
  by (induction a) auto

lemma split_append_sep: "sep \<notin> set a \<Longrightarrow> split sep (a @ sep # rest) = a # split sep rest"
  by (induction a) (auto split: list.splits simp: split_not_Nil)

lemma split_eq_ConsD:
  "split sep s = p # ps \<Longrightarrow>
     sep \<notin> set p \<and> (if ps = [] then s = p else \<exists>rest. s = p @ sep # rest \<and> split sep rest = ps)"
proof (induction s arbitrary: p ps)
  case Nil
  then show ?case by simp
next
  case (Cons c cs)
  show ?case
  proof (cases "c = sep")
    case True
    with Cons.prems have "p = []" "ps = split sep cs" by auto
    then show ?thesis using True by (simp add: split_not_Nil)
  next
    case False
    obtain q qs where q: "split sep cs = q # qs"
      using split_not_Nil [of sep cs] by (cases "split sep cs") auto
    with Cons.prems False have p: "p = c # q" "ps = qs" by auto
    from Cons.IH [OF q] p False show ?thesis by auto
  qed
qed


lemma validate_ip_True_iff:
  "(validate_ip s = Inr True) =
     (length (split CHR ''.'' s) = 4 \<and> list_all short_octet (split CHR ''.'' s))"
proof (cases "length (split CHR ''.'' s) = 4")
  case False
  then show ?thesis by (simp add: validate_ip_def)
next
  case True
  show ?thesis
  proof (cases "all_parts_valid (split CHR ''.'' s)")
    case (Inl e)
    with True all_parts_valid_True [of "split CHR ''.'' s"] show ?thesis
      by (simp add: validate_ip_def)
  next
    case (Inr ok)
    with True all_parts_valid_True [of "split CHR ''.'' s"] show ?thesis
      by (cases ok) (simp_all add: validate_ip_def)
  qed
qed

lemma split_dotted:
  assumes "CHR ''.'' \<notin> set a" "CHR ''.'' \<notin> set b" "CHR ''.'' \<notin> set c" "CHR ''.'' \<notin> set d"
  shows "split CHR ''.'' (a @ ''.'' @ b @ ''.'' @ c @ ''.'' @ d) = [a, b, c, d]"
  using assms by (simp add: split_append_sep split_no_sep)

lemma length4: "length xs = 4 \<Longrightarrow> \<exists>a b c d. xs = [a, b, c, d]"
  by (auto simp: numeral_eq_Suc length_Suc_conv)

lemma split4_decompose:
  assumes "split CHR ''.'' s = [a, b, c, d]"
  shows "s = a @ ''.'' @ b @ ''.'' @ c @ ''.'' @ d"
proof -
  from split_eq_ConsD [OF assms] obtain r1 where
    r1: "s = a @ CHR ''.'' # r1" "split CHR ''.'' r1 = [b, c, d]" by auto
  from split_eq_ConsD [OF r1(2)] obtain r2 where
    r2: "r1 = b @ CHR ''.'' # r2" "split CHR ''.'' r2 = [c, d]" by auto
  from split_eq_ConsD [OF r2(2)] obtain r3 where
    r3: "r2 = c @ CHR ''.'' # r3" "split CHR ''.'' r3 = [d]" by auto
  from split_eq_ConsD [OF r3(2)] have "r3 = d" by simp
  with r1 r2 r3 show ?thesis by simp
qed

text \<open>When the validator returns \<^verbatim>\<open>True\<close>: on four segments separated by dots, each
  of 1 to 4300 decimal digits with a value from 0 to 255.\<close>

lemma validate_ip_True_quad: "(validate_ip s = Inr True) = accepted_quad s"
proof
  assume "validate_ip s = Inr True"
  then have len: "length (split CHR ''.'' s) = 4"
    and oct: "list_all short_octet (split CHR ''.'' s)"
    by (simp_all add: validate_ip_True_iff)
  from length4 [OF len] obtain a b c d where parts: "split CHR ''.'' s = [a, b, c, d]" by blast
  from split4_decompose [OF parts] oct parts show "accepted_quad s"
    unfolding accepted_quad_def by auto
next
  assume "accepted_quad s"
  then obtain a b c d where s: "s = a @ ''.'' @ b @ ''.'' @ c @ ''.'' @ d"
    and o: "short_octet a" "short_octet b" "short_octet c" "short_octet d"
    unfolding accepted_quad_def by blast
  have "split CHR ''.'' s = [a, b, c, d]"
    unfolding s using o by (intro split_dotted short_octet_no_dot)
  then show "validate_ip s = Inr True" using o by (simp add: validate_ip_True_iff)
qed

text \<open>The five addresses the specification names.\<close>

lemma validate_ip_examples:
  "validate_ip ''256.1.1.1'' = Inr False"
  "validate_ip ''1.2.3'' = Inr False"
  "validate_ip ''1.2.3.4.5'' = Inr False"
  "validate_ip ''abc.1.1.1'' = Inr False"
  "validate_ip ''192.168.1.1'' = Inr True"
  by (simp_all add: validate_ip_def isdigit_def isdigit_char_def isdecimal_char_def py_int_def
      int_max_str_digits_def decimal_value_def digit_value_def)

lemma decimal_value_zeros: "decimal_value (replicate n CHR ''0'' @ a) = decimal_value a"
proof -
  have "foldl (\<lambda>acc c. 10 * acc + digit_value c) 0 (replicate n CHR ''0'') = 0"
    by (induction n) (simp_all add: digit_value_def)
  then show ?thesis by (simp add: decimal_value_def)
qed

lemma zeros_decimal: "list_all isdecimal_char (replicate n CHR ''0'')"
  by (induction n) (simp_all add: isdecimal_char_def)

lemma octet_zeros: "octet a \<Longrightarrow> octet (replicate n CHR ''0'' @ a)"
  using zeros_decimal [of n] by (simp add: octet_def decimal_value_zeros)

lemma octet_only_zeros: "0 < n \<Longrightarrow> octet (replicate n CHR ''0'')"
  using zeros_decimal [of n] decimal_value_zeros [of n "[]"]
  by (simp add: octet_def decimal_value_def)

lemma octet_one: "octet ''1''"
  by (simp add: octet_def isdecimal_char_def decimal_value_def digit_value_def)

lemma long_zeros_quad:
  assumes "0 < n"
  shows "dotted_quad (replicate n CHR ''0'' @ ''.1.1.1'')"
proof -
  have "replicate n CHR ''0'' @ ''.1.1.1'' =
      replicate n CHR ''0'' @ ''.'' @ ''1'' @ ''.'' @ ''1'' @ ''.'' @ ''1''" by simp
  with octet_only_zeros [OF assms] octet_one show ?thesis
    unfolding dotted_quad_def by blast
qed

lemma long_zeros_raise:
  assumes "int_max_str_digits < n"
  shows "validate_ip (replicate n CHR ''0'' @ ''.1.1.1'') = Inl ValueError"
proof -
  let ?z = "replicate n CHR ''0''"
  have n: "0 < n" using assms by simp
  have nodot: "CHR ''.'' \<notin> set ?z" by simp
  have "split CHR ''.'' (?z @ CHR ''.'' # ''1.1.1'') = ?z # split CHR ''.'' ''1.1.1''"
    using nodot by (rule split_append_sep)
  then have parts: "split CHR ''.'' (?z @ ''.1.1.1'') = [?z, ''1'', ''1'', ''1'']" by simp
  have dg: "isdigit ?z"
    using n zeros_decimal [of n] by (simp add: isdigit_def list_all_decimal_digit)
  have "py_int ?z = Inl ValueError" using assms by (simp add: py_int_def)
  with dg have "all_parts_valid [?z, ''1'', ''1'', ''1''] = Inl ValueError" by simp
  with parts show ?thesis by (simp add: validate_ip_def)
qed

text \<open>
  C5 fails on the code. The first segment of this string is 4301 zeros: all digits,
  with the value 0, so the string is four segments as the specification wants them.
  \<^verbatim>\<open>int\<close> refuses a string of more than 4300 digits, and \<^verbatim>\<open>validate_ip\<close> raises
  \<^verbatim>\<open>ValueError\<close> where the claim has it return \<^verbatim>\<open>True\<close>.
\<close>

theorem long_segment_raises:
  "dotted_quad (replicate 4301 CHR ''0'' @ ''.1.1.1'')
   \<and> validate_ip (replicate 4301 CHR ''0'' @ ''.1.1.1'') = Inl ValueError"
proof
  have "(0::nat) < 4301" by simp
  then show "dotted_quad (replicate 4301 CHR ''0'' @ ''.1.1.1'')" by (rule long_zeros_quad)
  have "int_max_str_digits < 4301" by (simp add: int_max_str_digits_def)
  then show "validate_ip (replicate 4301 CHR ''0'' @ ''.1.1.1'') = Inl ValueError"
    by (rule long_zeros_raise)
qed

text \<open>
  C6 as the specification states it fails: a segment with leading zeros is all digits,
  and \<^verbatim>\<open>int\<close> reads it as the number it denotes.
\<close>

theorem leading_zero_counterexample: "validate_ip ''001.1.1.1'' = Inr True"
  by (simp add: validate_ip_def isdigit_def isdigit_char_def isdecimal_char_def py_int_def
      int_max_str_digits_def decimal_value_def digit_value_def)

text \<open>
  C6, amended. Leading zeros are not rejected: four segments of decimal digits with
  values from 0 to 255 make an accepted address with zeros put in front of each of
  them, as long as no segment, its zeros counted, is longer than 4300 digits.
\<close>

theorem leading_zeros_accepted:
  assumes "octet a" "octet b" "octet c" "octet d"
    and "i + length a \<le> 4300" "j + length b \<le> 4300"
    and "k + length c \<le> 4300" "l + length d \<le> 4300"
  shows "validate_ip (replicate i CHR ''0'' @ a @ ''.'' @ replicate j CHR ''0'' @ b @ ''.'' @
                      replicate k CHR ''0'' @ c @ ''.'' @ replicate l CHR ''0'' @ d) = Inr True"
proof -
  have "short_octet (replicate i CHR ''0'' @ a)" "short_octet (replicate j CHR ''0'' @ b)"
    "short_octet (replicate k CHR ''0'' @ c)" "short_octet (replicate l CHR ''0'' @ d)"
    using assms by (simp_all add: short_octet_def octet_zeros int_max_str_digits_def)
  then have "accepted_quad ((replicate i CHR ''0'' @ a) @ ''.'' @ (replicate j CHR ''0'' @ b) @
      ''.'' @ (replicate k CHR ''0'' @ c) @ ''.'' @ (replicate l CHR ''0'' @ d))"
    unfolding accepted_quad_def by blast
  then show ?thesis by (simp add: validate_ip_True_quad)
qed

theorem leading_zeros_accepted_witness:
  "octet ''10'' \<and> octet ''1'' \<and> octet ''2'' \<and> octet ''255''
   \<and> validate_ip ''010.1.002.0255'' = Inr True"
proof -
  have o: "octet ''10''" "octet ''1''" "octet ''2''" "octet ''255''"
    by (simp_all add: octet_def isdecimal_char_def decimal_value_def digit_value_def)
  have len: "Suc 0 + length ''10'' \<le> 4300" "0 + length ''1'' \<le> 4300"
    "Suc (Suc 0) + length ''2'' \<le> 4300" "Suc 0 + length ''255'' \<le> 4300"
    by simp_all
  from leading_zeros_accepted [OF o len] o show ?thesis
    by simp
qed

text \<open>
  C7 fails on the code. \<^verbatim>\<open>isdigit\<close> accepts the superscript two, U+00B2, and
  \<^verbatim>\<open>int\<close> then raises \<^verbatim>\<open>ValueError\<close>: on the four-part string that starts with it,
  \<^verbatim>\<open>validate_ip\<close> returns no boolean.
\<close>

theorem validate_ip_raises: "validate_ip (CHR 0xB2 # ''.1.1.1'') = Inl ValueError"
  by (simp add: validate_ip_def isdigit_def isdigit_char_def isdecimal_char_def py_int_def)

lemma split_chars: "p \<in> set (split sep s) \<Longrightarrow> set p \<subseteq> set s \<and> length p \<le> length s"
proof (induction s arbitrary: p)
  case Nil
  then show ?case by simp
next
  case (Cons c cs)
  obtain q qs where q: "split sep cs = q # qs"
    using split_not_Nil [of sep cs] by (cases "split sep cs") auto
  show ?case
  proof (cases "c = sep")
    case True
    with Cons.prems have "p = [] \<or> p \<in> set (split sep cs)" by auto
    then show ?thesis
    proof
      assume "p = []"
      then show ?thesis by simp
    next
      assume "p \<in> set (split sep cs)"
      from Cons.IH [OF this] show ?thesis by auto
    qed
  next
    case False
    with Cons.prems q have "p = c # q \<or> p \<in> set qs" by auto
    moreover have "set q \<subseteq> set cs \<and> length q \<le> length cs" using Cons.IH [of q] q by simp
    moreover have "p \<in> set qs \<Longrightarrow> set p \<subseteq> set cs \<and> length p \<le> length cs"
      using Cons.IH [of p] q by simp
    ultimately show ?thesis by auto
  qed
qed

lemma all_parts_valid_decides:
  "list_all (\<lambda>p. list_all (\<lambda>c. isdigit_char c = isdecimal_char c) p
                 \<and> length p \<le> int_max_str_digits) parts \<Longrightarrow>
     \<exists>b. all_parts_valid parts = Inr b"
proof (induction parts)
  case Nil
  show ?case by auto
next
  case (Cons part parts)
  from Cons.prems have same: "list_all (\<lambda>c. isdigit_char c = isdecimal_char c) part"
    and short: "length part \<le> int_max_str_digits"
    and rest: "list_all (\<lambda>p. list_all (\<lambda>c. isdigit_char c = isdecimal_char c) p
                 \<and> length p \<le> int_max_str_digits) parts"
    by simp_all
  show ?case
  proof (cases "isdigit part")
    case False
    then show ?thesis by auto
  next
    case True
    with same have "part \<noteq> []" "list_all isdecimal_char part"
      by (auto simp: isdigit_def list_all_iff)
    with short have "py_int part = Inr (decimal_value part)" by (simp add: py_int_def)
    with True Cons.IH [OF rest] show ?thesis by auto
  qed
qed

text \<open>On a string of at most 4300 characters, none of them a superscript digit, the
  validator returns a boolean.\<close>

lemma validate_ip_decides:
  assumes "list_all (\<lambda>c. isdigit_char c = isdecimal_char c) s"
    and "length s \<le> int_max_str_digits"
  shows "\<exists>b. validate_ip s = Inr b"
proof -
  have "list_all (\<lambda>p. list_all (\<lambda>c. isdigit_char c = isdecimal_char c) p
                 \<and> length p \<le> int_max_str_digits) (split CHR ''.'' s)"
    using assms split_chars [of _ "CHR ''.''" s] by (fastforce simp: list_all_iff)
  from all_parts_valid_decides [OF this] obtain b where
    "all_parts_valid (split CHR ''.'' s) = Inr b" by blast
  then show ?thesis by (auto simp: validate_ip_def Let_def)
qed

section \<open>Properties of the cache store\<close>

lemma logging_fields [simp]:
  "clock (logging lvl msg margs w) = clock w"
  "files (logging lvl msg margs w) = files w"
  "writable (logging lvl msg margs w) = writable w"
  "tm_ok (logging lvl msg margs w) = tm_ok w"
  "float_sub (logging lvl msg margs w) = float_sub w"
  "http (logging lvl msg margs w) = http w"
  "ssh_connect (logging lvl msg margs w) = ssh_connect w"
  "scp_put (logging lvl msg margs w) = scp_put w"
  "logged (logging lvl msg margs w) = logged w @ [(lvl, msg, margs)]"
  by (simp_all add: logging_def)

lemma localtime_logging [simp]: "localtime t (logging lvl msg margs w) = localtime t w"
  by (simp add: localtime_def)

lemma load_json_logging [simp]: "load_json path (logging lvl msg margs w) = load_json path w"
  by (simp add: load_json_def)

lemma timestamp_number_logging [simp]:
  "timestamp_number ts (logging lvl msg margs w) = timestamp_number ts w"
  by (cases ts) simp_all

lemma cache_timestamp_of_world:
  "cache_timestamp_of cache_file json_cache w = Returns ts w1 \<Longrightarrow>
     \<exists>lvl msg margs. w1 = logging lvl msg margs w"
  by (auto simp: cache_timestamp_of_def split: sum.splits if_splits)

lemma returned_SomeD: "returned r = Some x \<Longrightarrow> \<exists>w. r = Returns x w"
  by (cases r) simp_all

lemma check_age_fresh:
  assumes "load_json cache_file w = Inr json_cache"
    and "localtime (clock w) w = Inr ()"
    and "timestamp_number ts w = Inr t"
    and "float_sub w (clock w) t < real_of_int ttl"
  shows "returned (check_age cache_file ttl ts w) = Some (Some json_cache)"
  using assms by (simp add: check_age_def Let_def)

lemma check_age_stale:
  assumes "localtime (clock w) w = Inr ()"
    and "timestamp_number ts w = Inr t"
    and "\<not> float_sub w (clock w) t < real_of_int ttl"
  shows "returned (check_age cache_file ttl ts w) = Some None"
  using assms by (simp add: check_age_def Let_def)

text \<open>The timestamp that lines 113 to 120 choose: the stored one when it is true in a
  condition, the file's last-modified time when it is there and false.\<close>

lemma truthy_timestamp_is_used:
  assumes "subscript json_cache ''timestamp'' = Inr stored" "truthy stored"
  shows "returned (cache_timestamp_of cache_file json_cache w) = Some stored"
  using assms by (simp add: cache_timestamp_of_def)

lemma falsy_timestamp_uses_mtime:
  assumes "files w cache_file = Some node"
    and "subscript json_cache ''timestamp'' = Inr stored" "\<not> truthy stored"
  shows "returned (cache_timestamp_of cache_file json_cache w) = Some (JFloat (mtime node))"
  using assms by (simp add: cache_timestamp_of_def getmtime_def)

lemma effective_timestamp:
  assumes "files w cache_file = Some node"
    and "subscript json_cache ''timestamp'' = Inr stored"
  shows "returned (cache_timestamp_of cache_file json_cache w) =
     Some (if truthy stored then stored else JFloat (mtime node))"
  using assms truthy_timestamp_is_used [of json_cache stored cache_file w]
    falsy_timestamp_uses_mtime [of w cache_file node json_cache stored]
  by simp

text \<open>
  Where the function reaches its comparison, it decides as the specification says.
  Take a cache file that exists and parses to a record with a \<^verbatim>\<open>timestamp\<close> field, and
  let \<open>t\<close> be the stored timestamp when it is true in a condition and the file's
  last-modified time otherwise. When lines 123 and 124 can format the current time and
  \<open>t\<close>, the record is returned exactly when the age, the difference of the two as
  the machine computes it, is below the TTL, and \<^verbatim>\<open>None\<close> exactly when it is not.
\<close>

lemma fresh_iff_age_below_ttl:
  assumes node: "files w cache_file = Some node" "content node = Doc json_cache"
    and stored: "subscript json_cache ''timestamp'' = Inr stored"
    and now: "localtime (clock w) w = Inr ()"
    and t: "timestamp_number (if truthy stored then stored else JFloat (mtime node)) w = Inr t"
  shows "((returned (check_cache_staleness cache_file ttl w) = Some (Some json_cache))
            = (float_sub w (clock w) t < real_of_int ttl))
       \<and> ((returned (check_cache_staleness cache_file ttl w) = Some None)
            = (real_of_int ttl \<le> float_sub w (clock w) t))"
proof -
  let ?ts = "if truthy stored then stored else JFloat (mtime node)"
  from node have load: "load_json cache_file w = Inr json_cache"
    by (simp add: load_json_def)
  from node have ex: "path_exists cache_file w" by (simp add: path_exists_def)
  from returned_SomeD [OF effective_timestamp [OF node(1) stored]] obtain w1 where
    stamp: "cache_timestamp_of cache_file json_cache w = Returns ?ts w1" by blast
  from cache_timestamp_of_world [OF stamp] obtain lvl msg margs
    where w1: "w1 = logging lvl msg margs w" by blast
  have run: "check_cache_staleness cache_file ttl w = check_age cache_file ttl ?ts w1"
    using ex load stamp by (simp add: check_cache_staleness_def then_do_def)
  show ?thesis
  proof (cases "float_sub w (clock w) t < real_of_int ttl")
    case True
    from check_age_fresh [of cache_file w1 json_cache ?ts t ttl] load now t True w1
    have "returned (check_age cache_file ttl ?ts w1) = Some (Some json_cache)" by simp
    with run True show ?thesis by simp
  next
    case False
    from check_age_stale [of w1 ?ts t ttl cache_file] now t False w1
    have "returned (check_age cache_file ttl ?ts w1) = Some None" by simp
    with run False show ?thesis by simp
  qed
qed

text \<open>The specification's two examples, with a TTL of 3600: a record stamped 100
  seconds ago is returned, one stamped 4000 seconds ago is not. Neither is one stamped
  exactly 3600 seconds ago. A record stamped 4000 seconds ago is not returned either
  when its file was modified 100 seconds ago; one with the stamp 0, in a file modified
  100 seconds ago, is.\<close>

lemma freshness_examples:
  "returned (check_cache_staleness ''cache.json'' 3600 (cached_world 4900)) =
     Some (Some (cache_record 4900 [(''https://ipinfo.io/ip'', ''10.0.0.1'')]))"
  "returned (check_cache_staleness ''cache.json'' 3600 (cached_world 1000)) = Some None"
  "returned (check_cache_staleness ''cache.json'' 3600 (cached_world 1400)) = Some None"
  "returned (check_cache_staleness ''cache.json'' 3600 touched_cache_world) = Some None"
  "returned (check_cache_staleness ''cache.json'' 3600 zero_stamp_world) =
     Some (Some (cache_record 0 [(''https://ipinfo.io/ip'', ''10.0.0.1'')]))"
  by (simp_all add: check_cache_staleness_def path_exists_def load_json_def then_do_def
      cache_timestamp_of_def getmtime_def check_age_def localtime_def Let_def cache_record_def
      cached_world_def touched_cache_world_def zero_stamp_world_def quiet_world_def)

text \<open>The age is the rounded difference: at the float nearest to 3600.1, a record
  stamped with the float nearest to 0.1 is stale for a TTL of 3600, although the
  difference of the two numbers is below 3600.\<close>

lemma rounded_age_is_compared:
  "clock rounding_world - float_0_1 < 3600
   \<and> returned (check_cache_staleness ''cache.json'' 3600 rounding_world) = Some None"
  by (simp add: check_cache_staleness_def path_exists_def load_json_def then_do_def
      cache_timestamp_of_def check_age_def localtime_def Let_def cache_record_def
      rounding_world_def quiet_world_def float_3600_1_def float_0_1_def)

text \<open>
  C1 fails on the code. This cache file exists and parses, its stored timestamp
  \<open>2 ^ 63\<close> is a number and is the one lines 113 to 120 choose, and \<open>now - t\<close> is far
  below the TTL, so the claim has the record returned. Line 124 builds its debug
  message with \<^verbatim>\<open>time.localtime(cache_timestamp)\<close> before the comparison and outside
  any \<^verbatim>\<open>try\<close>: the timestamp is outside the range of \<^verbatim>\<open>time_t\<close>, and the function
  raises \<^verbatim>\<open>OverflowError\<close> instead of returning.
\<close>

theorem far_future_timestamp_raises:
  "load_json ''cache.json'' far_future_world = Inr far_future_record
   \<and> returned (cache_timestamp_of ''cache.json'' far_future_record far_future_world) =
       Some (JInt (2 ^ 63))
   \<and> clock far_future_world - 2 ^ 63 < real_of_int 3600
   \<and> raised (check_cache_staleness ''cache.json'' 3600 far_future_world) = Some OverflowError"
  by (simp add: check_cache_staleness_def path_exists_def load_json_def then_do_def
      cache_timestamp_of_def check_age_def localtime_def Let_def
      far_future_world_def far_future_record_def quiet_world_def)

text \<open>
  C2 fails on the code. The record of this cache file has no \<^verbatim>\<open>timestamp\<close> field:
  the subscript on line 114 raises \<^verbatim>\<open>KeyError\<close>, and the last-modified time is never
  looked at.
\<close>

theorem missing_timestamp_raises:
  "check_cache_staleness ''cache.json'' 3600 no_timestamp_world = Raises KeyError no_timestamp_world"
  by (simp add: check_cache_staleness_def path_exists_def load_json_def then_do_def
      cache_timestamp_of_def no_timestamp_world_def quiet_world_def)

lemma saved_timestamp:
  assumes "files w cache_file = Some \<lparr>content = Doc (cache_record t ip_list), mtime = t\<rparr>"
  shows "returned (cache_timestamp_of cache_file (cache_record t ip_list) w) = Some (JFloat t)"
  using assms by (simp add: cache_timestamp_of_def cache_record_def getmtime_def)

text \<open>
  C8. When the cache file can be written, \<^verbatim>\<open>save_ip_list_to_cache\<close> returns, and
  \<^verbatim>\<open>check_cache_staleness\<close> on the same path at a time \<open>later\<close>, with a TTL larger
  than the time gone by (as the machine subtracts the two times), returns the record
  that was written: the time of writing and, under \<^verbatim>\<open>services\<close>, every entry of the
  snapshot. (The platform shows both times as local times.)
\<close>

theorem persist_then_load:
  assumes wr: "writable w cache_file"
    and t0: "localtime (clock w) w = Inr ()"
    and t1: "localtime later w = Inr ()"
    and ttl: "float_sub w later (clock w) < real_of_int ttl"
  shows "returned (save_ip_list_to_cache cache_file ip_list w) = Some ()
       \<and> returned (check_cache_staleness cache_file ttl
             ((world_of (save_ip_list_to_cache cache_file ip_list w))\<lparr>clock := later\<rparr>))
           = Some (Some (cache_record (clock w) ip_list))
       \<and> subscript (cache_record (clock w) ip_list) ''services''
           = Inr (JObj (map (\<lambda>kv. (fst kv, JStr (snd kv))) ip_list))"
proof -
  let ?rec = "cache_record (clock w) ip_list"
  let ?w2 = "(world_of (save_ip_list_to_cache cache_file ip_list w))\<lparr>clock := later\<rparr>"
  have saved: "returned (save_ip_list_to_cache cache_file ip_list w) = Some ()"
    using wr by (simp add: save_ip_list_to_cache_def)
  have node: "files ?w2 cache_file = Some \<lparr>content = Doc ?rec, mtime = clock w\<rparr>"
    using wr by (simp add: save_ip_list_to_cache_def logging_def)
  have env: "tm_ok ?w2 = tm_ok w" "clock ?w2 = later" "float_sub ?w2 = float_sub w"
    using wr by (simp_all add: save_ip_list_to_cache_def logging_def)
  have load: "load_json cache_file ?w2 = Inr ?rec"
    using node by (simp add: load_json_def)
  have ex: "path_exists cache_file ?w2"
    using node by (simp add: path_exists_def)
  from returned_SomeD [OF saved_timestamp [OF node]] obtain w3 where
    stamp3: "cache_timestamp_of cache_file ?rec ?w2 = Returns (JFloat (clock w)) w3"
    by blast
  from cache_timestamp_of_world [OF stamp3] obtain lvl msg margs where
    "w3 = logging lvl msg margs ?w2" by blast
  with stamp3 have
    stamp: "cache_timestamp_of cache_file ?rec ?w2 = Returns (JFloat (clock w)) (logging lvl msg margs ?w2)"
    by simp
  have run: "check_cache_staleness cache_file ttl ?w2 =
      check_age cache_file ttl (JFloat (clock w)) (logging lvl msg margs ?w2)"
    using ex load stamp by (simp add: check_cache_staleness_def then_do_def)
  have "localtime x ?w2 = localtime x w" for x
    by (simp add: localtime_def env)
  with t0 t1 have lt: "localtime (clock w) ?w2 = Inr ()" "localtime later ?w2 = Inr ()"
    by simp_all
  have "returned (check_age cache_file ttl (JFloat (clock w)) (logging lvl msg margs ?w2))
      = Some (Some ?rec)"
    using load lt ttl env
    by (intro check_age_fresh [where t = "clock w"]) simp_all
  with run saved show ?thesis by (simp add: cache_record_def)
qed

theorem persist_then_load_witness:
  "returned (check_cache_staleness ''cache.json'' 3600
      ((world_of (save_ip_list_to_cache ''cache.json'' [(''https://ipinfo.io/ip'', ''10.0.0.1'')]
          quiet_world))\<lparr>clock := 5001\<rparr>))
   = Some (Some (cache_record 5000 [(''https://ipinfo.io/ip'', ''10.0.0.1'')]))"
  using persist_then_load [of quiet_world "''cache.json''" 5001 3600
      "[(''https://ipinfo.io/ip'', ''10.0.0.1'')]"]
  by (simp add: quiet_world_def localtime_def)

section \<open>Properties of the resolver\<close>







lemma query_service_http:
  "query_service u acc w = Returns m w' \<Longrightarrow> http w' = http w"
  by (auto simp: query_service_def Let_def split: http_reply.splits if_splits sum.splits)

lemma query_service_result:
  "query_service u acc w = Returns m w' \<Longrightarrow>
     m = (case answer (http w u) of None \<Rightarrow> acc | Some ip \<Rightarrow> AList.update u ip acc)"
  by (auto simp: query_service_def answer_def Let_def
      split: http_reply.splits if_splits sum.splits)

lemma query_service_total:
  "validator_decides (http w u) \<Longrightarrow> returned (query_service u acc w) \<noteq> None"
  by (auto simp: query_service_def validator_decides_def Let_def
      split: http_reply.splits if_splits sum.splits)


lemma get_public_ip_from_result:
  "get_public_ip_from urls acc w = Returns m w' \<Longrightarrow>
     map_of m u =
       (if u \<in> set urls \<and> answer (http w u) \<noteq> None then answer (http w u) else map_of acc u)"
proof (induction urls arbitrary: acc w)
  case Nil
  then show ?case by simp
next
  case (Cons url rest)
  from Cons.prems obtain m1 w1 where
    step: "query_service url acc w = Returns m1 w1"
    and rest: "get_public_ip_from rest m1 w1 = Returns m w'"
    by (cases "query_service url acc w") (simp_all add: then_do_def)
  have h: "http w1 = http w" using step by (rule query_service_http)
  have m1: "m1 = (case answer (http w url) of None \<Rightarrow> acc | Some ip \<Rightarrow> AList.update url ip acc)"
    using step by (rule query_service_result)
  have "map_of m u =
      (if u \<in> set rest \<and> answer (http w1 u) \<noteq> None then answer (http w1 u)
       else map_of m1 u)"
    using rest by (rule Cons.IH)
  then have "map_of m u =
      (if u \<in> set rest \<and> answer (http w u) \<noteq> None then answer (http w u) else map_of m1 u)"
    unfolding h .
  then show ?case
    using m1 by (auto simp: update_conv' split: option.splits)
qed

lemma get_public_ip_from_total:
  "list_all (\<lambda>u. validator_decides (http w u)) urls \<Longrightarrow>
     returned (get_public_ip_from urls acc w) \<noteq> None"
proof (induction urls arbitrary: acc w)
  case Nil
  then show ?case by simp
next
  case (Cons url rest)
  from Cons.prems have "validator_decides (http w url)" by simp
  from query_service_total [OF this, of acc] obtain m1 w1 where
    step: "query_service url acc w = Returns m1 w1"
    by (cases "query_service url acc w") simp_all
  have "http w1 = http w" using step by (rule query_service_http)
  with Cons.prems have "list_all (\<lambda>u. validator_decides (http w1 u)) rest" by simp
  from Cons.IH [OF this, of m1] step show ?case by (simp add: then_do_def)
qed




text \<open>
  C4 as the specification states it fails: the body \<^verbatim>\<open>"1.2.3.4\n"\<close> does not pass the
  validator, and yet the service that sent it has an entry in the mapping, since the
  body is stripped before it is validated.
\<close>

theorem raw_body_counterexample:
  "validate_ip (''1.2.3.4'' @ [CHR 0x0A]) = Inr False
   \<and> returned (get_public_ip newline_world) = Some [(''https://ipinfo.io/ip'', ''1.2.3.4'')]"
  by (simp add: get_public_ip_def PUBLIC_IP_SERVICE_URL_LIST_def then_do_def query_service_def
      Let_def newline_world_def quiet_world_def logging_def strip_def isspace_def
      validate_ip_def isdigit_def isdigit_char_def isdecimal_char_def py_int_def int_max_str_digits_def
      decimal_value_def digit_value_def)

text \<open>
  C4, amended. For every list of services whose replies the validator decides, the
  resolver returns a mapping that has an entry for a service exactly when the request
  succeeded and the body, stripped of surrounding whitespace, is not empty and passes
  the validator; the entry is the stripped body. A service that fails, that sends only
  whitespace or that sends an address the validator rejects is skipped, and the
  services after it are still asked.
\<close>

theorem get_public_ip_entries:
  assumes "list_all (\<lambda>u. validator_decides (http w u)) urls"
  shows "\<exists>m. returned (get_public_ip_from urls [] w) = Some m
           \<and> (\<forall>u. map_of m u = (if u \<in> set urls then answer (http w u) else None))"
proof -
  from get_public_ip_from_total [OF assms, of "[]"] obtain m w' where
    r: "get_public_ip_from urls [] w = Returns m w'"
    by (cases "get_public_ip_from urls [] w") simp_all
  have "map_of m u = (if u \<in> set urls then answer (http w u) else None)" for u
    using get_public_ip_from_result [OF r, of u] by auto
  with r show ?thesis by simp
qed

theorem get_public_ip_entries_witness:
  "returned (get_public_ip_from PUBLIC_IP_SERVICE_URL_LIST [] newline_world) \<noteq> None
   \<and> map_of (the (returned (get_public_ip_from PUBLIC_IP_SERVICE_URL_LIST [] newline_world)))
        ''https://ipinfo.io/ip'' = Some ''1.2.3.4''
   \<and> map_of (the (returned (get_public_ip_from PUBLIC_IP_SERVICE_URL_LIST [] newline_world)))
        ''https://checkip.amazonaws.com'' = None"
proof -
  have d: "list_all (\<lambda>u. validator_decides (http newline_world u)) PUBLIC_IP_SERVICE_URL_LIST"
    by (simp add: PUBLIC_IP_SERVICE_URL_LIST_def validator_decides_def newline_world_def
        quiet_world_def strip_def isspace_def validate_ip_def isdigit_def isdigit_char_def
        isdecimal_char_def py_int_def int_max_str_digits_def decimal_value_def digit_value_def)
  have a1: "answer (http newline_world ''https://ipinfo.io/ip'') = Some ''1.2.3.4''"
    by (simp add: answer_def newline_world_def quiet_world_def strip_def isspace_def
        validate_ip_def isdigit_def isdigit_char_def isdecimal_char_def py_int_def int_max_str_digits_def
        decimal_value_def digit_value_def)
  have a2: "answer (http newline_world ''https://checkip.amazonaws.com'') = None"
    by (simp add: answer_def newline_world_def quiet_world_def)
  from get_public_ip_entries [OF d] a1 a2 show ?thesis
    by (auto simp: PUBLIC_IP_SERVICE_URL_LIST_def)
qed



text \<open>The \<^verbatim>\<open>ValueError\<close> of the validator is not caught in the resolver: it ends
  \<^verbatim>\<open>get_public_ip\<close> before the second service is asked.\<close>

lemma resolver_raises_on_superscript:
  "raised (get_public_ip superscript_world) = Some ValueError"
  by (simp add: get_public_ip_def PUBLIC_IP_SERVICE_URL_LIST_def then_do_def query_service_def
      Let_def superscript_world_def quiet_world_def logging_def strip_def isspace_def
      validate_ip_def isdigit_def isdigit_char_def isdecimal_char_def py_int_def int_max_str_digits_def)

section \<open>Properties of the dispatcher\<close>

lemma scp_upload_logged [simp]:
  "scp_upload d cache_file (w\<lparr>logged := l\<rparr>) = scp_upload d cache_file w"
  by (simp add: scp_upload_def cong: sum.case_cong json.case_cong if_cong)

lemma destination_log_logged [simp]:
  "destination_log d cache_file (w\<lparr>logged := l\<rparr>) = destination_log d cache_file w"
  by (simp add: destination_log_def cong: sum.case_cong json.case_cong if_cong)

lemma run_destination_op_scp_log:
  assumes "subscript d ''name'' = Inr name"
  shows "run_destination_op_scp d cache_file w =
     Returns ()
       (w\<lparr>logged := logged w @
          (INFO, ''Executing operation %s'', [J name]) #
          (case scp_upload d cache_file w of
             Inr (host, remote_file) \<Rightarrow>
               [(INFO, ''Uploaded %s to remote %s:%s'', [S cache_file, J host, S remote_file])]
           | Inl e \<Rightarrow>
               [(ERROR, ''Failed to upload to remote'', []), (ERROR, ''{}'', [X e])])\<rparr>)"
  using assms
  by (cases "scp_upload d cache_file w")
     (auto simp: run_destination_op_scp_def logging_def Let_def)

lemma run_destination_op_log:
  assumes "well_formed_destination d"
  shows "run_destination_op d cache_file w =
     Returns () (w\<lparr>logged := logged w @ destination_log d cache_file w\<rparr>)"
proof -
  from assms obtain t where t: "subscript d ''type'' = Inr (JStr t)"
    by (auto simp: well_formed_destination_def split: sum.splits json.splits)
  show ?thesis
  proof (cases "t = ''scp''")
    case True
    with assms t obtain name where n: "subscript d ''name'' = Inr name"
      by (auto simp: well_formed_destination_def split: sum.splits)
    from run_destination_op_scp_log [OF n, of cache_file w] t True n show ?thesis
      by (simp add: run_destination_op_def destination_log_def)
  next
    case False
    with t show ?thesis
      by (simp add: run_destination_op_def destination_log_def logging_def)
  qed
qed

lemma dispatch_log:
  "list_all well_formed_destination dests \<Longrightarrow>
     dispatch dests cache_file w =
       Returns ()
         (w\<lparr>logged := logged w @ concat (map (\<lambda>d. destination_log d cache_file w) dests)\<rparr>)"
proof (induction dests arbitrary: w)
  case Nil
  then show ?case by simp
next
  case (Cons d rest)
  from Cons.prems have d: "well_formed_destination d"
    and rest: "list_all well_formed_destination rest" by simp_all
  show ?case
    by (simp add: run_destination_op_log [OF d] then_do_def Cons.IH [OF rest])
qed


text \<open>
  C9 as the specification states it fails: the tag of the first destination is the
  number 5, which is not \<^verbatim>\<open>"scp"\<close>; building the warning raises \<^verbatim>\<open>TypeError\<close>,
  nothing is logged, and the \<^verbatim>\<open>scp\<close> destination after it is never dispatched.
\<close>

theorem non_string_type_counterexample:
  "dispatch [numbered_destination, scp_destination] ''cache.json'' quiet_world =
     Raises TypeError quiet_world"
  by (simp add: then_do_def run_destination_op_def numbered_destination_def)

text \<open>
  C9, amended. For every list of destinations that are objects with a string
  \<^verbatim>\<open>type\<close> tag (and a \<^verbatim>\<open>name\<close> when the tag is \<^verbatim>\<open>"scp"\<close>), the loop returns
  without raising, whatever the transport does, and the log grows by the records of each
  destination in the order of the list: for a tag other than \<^verbatim>\<open>"scp"\<close> the warning
  that names it, for \<^verbatim>\<open>"scp"\<close> the upload or its failure. Nothing else of the world
  changes, and what is logged for a destination does not depend on the ones before it.
\<close>

theorem dispatch_in_order:
  assumes "list_all well_formed_destination dests"
  shows "dispatch dests cache_file w =
     Returns ()
       (w\<lparr>logged := logged w @ concat (map (\<lambda>d. destination_log d cache_file w) dests)\<rparr>)"
  using assms by (rule dispatch_log)

theorem dispatch_in_order_witness:
  "returned (dispatch [scp_destination, ftp_destination] ''dir/cache.json'' quiet_world) = Some ()
   \<and> logged (world_of (dispatch [scp_destination, ftp_destination] ''dir/cache.json'' quiet_world)) =
       [(INFO, ''Executing operation %s'', [J (JStr ''home'')]),
        (ERROR, ''Failed to upload to remote'', []),
        (ERROR, ''{}'', [X TransportError]),
        (WARNING, ''Don't have option for ftp'', []),
        (DEBUG, ''{}'', [J ftp_destination])]"
proof -
  have wf: "list_all well_formed_destination [scp_destination, ftp_destination]"
    by (simp add: well_formed_destination_def scp_destination_def ftp_destination_def)
  have l1: "destination_log scp_destination ''dir/cache.json'' quiet_world =
      [(INFO, ''Executing operation %s'', [J (JStr ''home'')]),
       (ERROR, ''Failed to upload to remote'', []),
       (ERROR, ''{}'', [X TransportError])]"
    by (simp add: destination_log_def scp_destination_def scp_upload_def quiet_world_def)
  have l2: "destination_log ftp_destination ''dir/cache.json'' quiet_world =
      [(WARNING, ''Don't have option for ftp'', []), (DEBUG, ''{}'', [J ftp_destination])]"
    by (simp add: destination_log_def ftp_destination_def)
  have l0: "logged quiet_world = []" by (simp add: quiet_world_def)
  from dispatch_in_order [OF wf, of "''dir/cache.json''" quiet_world] l0 l1 l2
  show ?thesis by simp
qed

section \<open>Properties of the orchestrator\<close>

lemma same_environment_refl [simp]: "same_environment w w"
  by (simp add: same_environment_def)

lemma same_environment_logging [simp]:
  "same_environment w (logging lvl msg margs w') = same_environment w w'"
  by (simp add: same_environment_def)

lemma same_environment_trans:
  "same_environment w w1 \<Longrightarrow> same_environment w1 w2 \<Longrightarrow> same_environment w w2"
  by (simp add: same_environment_def)

lemma check_age_environment:
  "check_age cache_file ttl ts w = Returns c w' \<Longrightarrow> same_environment w w'"
  by (auto simp: check_age_def Let_def split: sum.splits if_splits)

lemma check_cache_staleness_environment:
  assumes "check_cache_staleness cache_file ttl w = Returns c w'"
  shows "same_environment w w'"
proof (cases "path_exists cache_file w")
  case False
  with assms show ?thesis by (auto simp: check_cache_staleness_def)
next
  case True
  with assms obtain j where j: "load_json cache_file w = Inr j"
    and run: "then_do (cache_timestamp_of cache_file j w) (check_age cache_file ttl) = Returns c w'"
    by (cases "load_json cache_file w") (simp_all add: check_cache_staleness_def)
  from run obtain ts w1 where s: "cache_timestamp_of cache_file j w = Returns ts w1"
    and a: "check_age cache_file ttl ts w1 = Returns c w'"
    by (cases "cache_timestamp_of cache_file j w") (simp_all add: then_do_def)
  from cache_timestamp_of_world [OF s] have "same_environment w w1" by auto
  with check_age_environment [OF a] show ?thesis by (rule same_environment_trans [rotated])
qed

lemma query_service_environment:
  "query_service u acc w = Returns m w' \<Longrightarrow> same_environment w w'"
  by (auto simp: query_service_def Let_def split: http_reply.splits if_splits sum.splits)

lemma get_public_ip_from_environment:
  "get_public_ip_from urls acc w = Returns m w' \<Longrightarrow> same_environment w w'"
proof (induction urls arbitrary: acc w)
  case Nil
  then show ?case by simp
next
  case (Cons url rest)
  from Cons.prems obtain m1 w1 where
    step: "query_service url acc w = Returns m1 w1"
    and rest: "get_public_ip_from rest m1 w1 = Returns m w'"
    by (cases "query_service url acc w") (simp_all add: then_do_def)
  from query_service_environment [OF step] Cons.IH [OF rest] show ?case
    by (rule same_environment_trans)
qed

lemma resolve_and_save_overwrites:
  assumes ips: "get_public_ip w = Returns ips w2" "ips \<noteq> []"
    and wr: "writable w (args_cache_file a)"
  shows "returned (resolve_and_save a w) = Some ()
       \<and> files (world_of (resolve_and_save a w)) (args_cache_file a) =
           Some \<lparr>content = Doc (cache_record (clock w) ips), mtime = clock w\<rparr>"
proof -
  from ips(1) have "same_environment w w2"
    unfolding get_public_ip_def by (rule get_public_ip_from_environment)
  then have e: "clock w2 = clock w" "writable w2 = writable w"
    by (simp_all add: same_environment_def)
  show ?thesis
    using ips wr e
    by (simp add: resolve_and_save_def then_do_def Let_def save_ip_list_to_cache_def)
qed

lemma refresh_ignoring:
  assumes "args_ignore_cache a"
  shows "refresh_public_ips a w =
     then_do (check_cache_staleness (args_cache_file a) (args_cache_ttl a) w)
       (\<lambda>cached. resolve_and_save a)"
  using assms by (simp add: refresh_public_ips_def)


lemma check_age_log:
  "check_age cache_file ttl ts w = Returns c w' \<Longrightarrow> \<exists>more. logged w' = logged w @ more"
  by (auto simp: check_age_def Let_def split: sum.splits if_splits)

text \<open>Every call of \<^verbatim>\<open>check_cache_staleness\<close> that returns has logged something.\<close>

lemma check_cache_staleness_log:
  assumes "check_cache_staleness cache_file ttl w = Returns c w'"
  shows "\<exists>loaded. loaded \<noteq> [] \<and> logged w' = logged w @ loaded"
proof (cases "path_exists cache_file w")
  case False
  with assms show ?thesis by (auto simp: check_cache_staleness_def)
next
  case True
  with assms obtain j where j: "load_json cache_file w = Inr j"
    and run: "then_do (cache_timestamp_of cache_file j w) (check_age cache_file ttl) = Returns c w'"
    by (cases "load_json cache_file w") (simp_all add: check_cache_staleness_def)
  from run obtain ts w1 where s: "cache_timestamp_of cache_file j w = Returns ts w1"
    and a: "check_age cache_file ttl ts w1 = Returns c w'"
    by (cases "cache_timestamp_of cache_file j w") (simp_all add: then_do_def)
  from cache_timestamp_of_world [OF s] obtain lvl msg margs where
    "logged w1 = logged w @ [(lvl, msg, margs)]" by auto
  moreover from check_age_log [OF a] obtain more where "logged w' = logged w1 @ more" by blast
  ultimately have "logged w' = logged w @ ((lvl, msg, margs) # more)" by simp
  then show ?thesis by blast
qed

lemma query_service_log:
  "query_service u acc w = Returns m w' \<Longrightarrow> \<exists>es. logged w' = logged w @ es"
  by (auto simp: query_service_def Let_def split: http_reply.splits if_splits sum.splits)

lemma get_public_ip_from_log:
  "get_public_ip_from urls acc w = Returns m w' \<Longrightarrow> \<exists>es. logged w' = logged w @ es"
proof (induction urls arbitrary: acc w)
  case Nil
  then show ?case by simp
next
  case (Cons url rest)
  from Cons.prems obtain m1 w1 where
    step: "query_service url acc w = Returns m1 w1"
    and rest: "get_public_ip_from rest m1 w1 = Returns m w'"
    by (cases "query_service url acc w") (simp_all add: then_do_def)
  from query_service_log [OF step] obtain es1 where "logged w1 = logged w @ es1" by blast
  moreover from Cons.IH [OF rest] obtain es2 where "logged w' = logged w1 @ es2" by blast
  ultimately have "logged w' = logged w @ (es1 @ es2)" by simp
  then show ?case by blast
qed

lemma resolve_and_save_log:
  assumes ips: "get_public_ip w = Returns ips w2" "ips \<noteq> []"
  shows "\<exists>resolved. logged (world_of (resolve_and_save a w)) = logged w @ resolved"
proof -
  from ips(1) obtain es where es: "logged w2 = logged w @ es"
    unfolding get_public_ip_def using get_public_ip_from_log by blast
  show ?thesis
    using ips es
    by (simp add: resolve_and_save_def then_do_def Let_def save_ip_list_to_cache_def logging_def)
qed

text \<open>
  The help text of \<^verbatim>\<open>--ignore-cache\<close> reads "Ignore cache file, whether stale or not
  (existing cache will be overwritten)". With the flag set and a cache file that is not
  JSON, the run still ends in the \<^verbatim>\<open>JSONDecodeError\<close> of parsing that file, right after
  the cache directory was found and before any service is asked.
\<close>

lemma corrupt_cache_ends_ignoring_run:
  "args_ignore_cache ignoring_args
   \<and> raised (main ignoring_args corrupt_cache_world) = Some JSONDecodeError
   \<and> logged (world_of (main ignoring_args corrupt_cache_world)) =
       [(INFO, ''public_ip_poster starting'', []),
        (DEBUG, ''{}'', []),
        (INFO, ''Using configuration file: {}'', [S ''config.json'']),
        (DEBUG, ''{}'', []),
        (INFO, ''Using existing cache directory at {}'', [S ''.public_ip_poster_cache''])]"
  by (simp add: main_def then_do_def setup_logging_def read_config_file_def load_json_def
      setup_cache_dir_def path_exists_def refresh_public_ips_def check_cache_staleness_def
      Let_def logging_def corrupt_cache_world_def quiet_world_def ignoring_args_def)

text \<open>
  C3 as the specification states it fails: in this run \<^verbatim>\<open>--ignore-cache\<close> is set and
  the cache file holds a fresh record. The log of the run shows that
  \<^verbatim>\<open>check_cache_staleness\<close> was called and read the file, before any service was asked:
  it logged the timestamp stored in the file and that the cache is valid. The services
  are asked all the same and the cache is written anew.
\<close>

theorem ignore_cache_counterexample:
  "args_ignore_cache ignoring_args
   \<and> returned (main ignoring_args fresh_run_world) = Some ()
   \<and> logged (world_of (main ignoring_args fresh_run_world)) =
       [(INFO, ''public_ip_poster starting'', []),
        (DEBUG, ''{}'', []),
        (INFO, ''Using configuration file: {}'', [S ''config.json'']),
        (DEBUG, ''{}'', []),
        (INFO, ''Using existing cache directory at {}'', [S ''.public_ip_poster_cache'']),
        (INFO, ''Cache has timestamp {}'', [J (JFloat 4900)]),
        (DEBUG, ''current_time: {} - {}'', [R 5000]),
        (DEBUG, ''cache_timestamp: {} - {}'', [R 4900]),
        (INFO, ''Cache file is valid, age {}'', [R 100]),
        (INFO, ''Attempting to retrieve public IP from {}'', [S ''https://ipinfo.io/ip'']),
        (INFO, ''Retrieved public IP: {} from {}'', [S ''1.2.3.4'', S ''https://ipinfo.io/ip'']),
        (INFO, ''Attempting to retrieve public IP from {}'', [S ''https://checkip.amazonaws.com'']),
        (WARNING, ''Could not retrieve IP from {}'', [S ''https://checkip.amazonaws.com'']),
        (INFO, ''Retrieved {} public IP addresses'', [N 1]),
        (DEBUG, ''Public IP addresses: {}'', []),
        (DEBUG, ''Attempting to save to cache file {}'', [S ''cache.json'']),
        (INFO, ''Saved public IP list to cache file at {}'', [S ''cache.json'']),
        (INFO, ''Got %d destinations'', [N 0]),
        (INFO, ''public_ip_poster finished'', [])]"
  by (simp add: main_def then_do_def setup_logging_def read_config_file_def load_json_def
      setup_cache_dir_def path_exists_def refresh_public_ips_def check_cache_staleness_def
      cache_timestamp_of_def check_age_def localtime_def cache_record_def
      resolve_and_save_def get_public_ip_def PUBLIC_IP_SERVICE_URL_LIST_def query_service_def
      save_ip_list_to_cache_def publish_def
      strip_def isspace_def validate_ip_def isdigit_def isdigit_char_def isdecimal_char_def
      py_int_def int_max_str_digits_def decimal_value_def digit_value_def
      Let_def logging_def fresh_run_world_def newline_world_def quiet_world_def
      ignoring_args_def)

text \<open>
  C3, amended. With \<^verbatim>\<open>--ignore-cache\<close> set, \<^verbatim>\<open>check_cache_staleness\<close> is still called
  first and reads and parses an existing cache file, but what it returns is discarded:
  whenever it returns, a record or \<^verbatim>\<open>None\<close>, the services are asked next, and a
  non-empty answer is written over the cache file when the file can be written. The log
  of the run holds what the load logged, which is never nothing, and after it what the
  resolution logged.
\<close>

theorem ignore_cache_discards_load:
  assumes ignore: "args_ignore_cache a"
    and load: "check_cache_staleness (args_cache_file a) (args_cache_ttl a) w = Returns cached w1"
    and res: "get_public_ip w1 = Returns ips w2" "ips \<noteq> []"
    and wr: "writable w (args_cache_file a)"
  shows "returned (refresh_public_ips a w) = Some ()
       \<and> files (world_of (refresh_public_ips a w)) (args_cache_file a) =
           Some \<lparr>content = Doc (cache_record (clock w) ips), mtime = clock w\<rparr>
       \<and> (\<exists>loaded resolved.
            loaded \<noteq> [] \<and> logged w1 = logged w @ loaded
            \<and> logged (world_of (refresh_public_ips a w)) = logged w @ loaded @ resolved)"
proof -
  from check_cache_staleness_environment [OF load]
  have e: "clock w1 = clock w" "writable w1 = writable w"
    by (simp_all add: same_environment_def)
  have r: "refresh_public_ips a w = resolve_and_save a w1"
    using refresh_ignoring [OF ignore, of w] load by (simp add: then_do_def)
  from resolve_and_save_overwrites [OF res, of a] wr e r
  have saved: "returned (refresh_public_ips a w) = Some ()"
    "files (world_of (refresh_public_ips a w)) (args_cache_file a) =
      Some \<lparr>content = Doc (cache_record (clock w) ips), mtime = clock w\<rparr>"
    by simp_all
  from check_cache_staleness_log [OF load] obtain loaded where
    l: "loaded \<noteq> []" "logged w1 = logged w @ loaded" by blast
  from resolve_and_save_log [OF res, of a] obtain resolved where
    "logged (world_of (resolve_and_save a w1)) = logged w1 @ resolved" by blast
  with r l have "logged (world_of (refresh_public_ips a w)) = logged w @ loaded @ resolved"
    by simp
  with l saved show ?thesis by blast
qed

lemma fresh_cache_is_loaded:
  "check_cache_staleness (args_cache_file ignoring_args) (args_cache_ttl ignoring_args)
     fresh_cache_world =
   Returns (Some (cache_record 4900 [(''https://ipinfo.io/ip'', ''10.0.0.1'')]))
     (world_of (check_cache_staleness ''cache.json'' 3600 fresh_cache_world))"
  by (simp add: check_cache_staleness_def path_exists_def load_json_def then_do_def
      cache_timestamp_of_def check_age_def localtime_def Let_def cache_record_def
      fresh_cache_world_def cached_world_def quiet_world_def ignoring_args_def)

lemma fresh_cache_world_resolves:
  "get_public_ip (world_of (check_cache_staleness ''cache.json'' 3600 fresh_cache_world)) =
   Returns [(''https://ipinfo.io/ip'', ''1.2.3.4'')]
     (world_of (get_public_ip
        (world_of (check_cache_staleness ''cache.json'' 3600 fresh_cache_world))))"
  by (simp add: check_cache_staleness_def path_exists_def load_json_def then_do_def
      cache_timestamp_of_def check_age_def localtime_def Let_def cache_record_def
      fresh_cache_world_def cached_world_def quiet_world_def newline_world_def
      get_public_ip_def PUBLIC_IP_SERVICE_URL_LIST_def query_service_def logging_def
      strip_def isspace_def validate_ip_def isdigit_def isdigit_char_def isdecimal_char_def
      py_int_def int_max_str_digits_def decimal_value_def digit_value_def)

theorem ignore_cache_discards_load_witness:
  "args_ignore_cache ignoring_args
   \<and> returned (check_cache_staleness ''cache.json'' 3600 fresh_cache_world) =
       Some (Some (cache_record 4900 [(''https://ipinfo.io/ip'', ''10.0.0.1'')]))
   \<and> returned (refresh_public_ips ignoring_args fresh_cache_world) = Some ()
   \<and> files (world_of (refresh_public_ips ignoring_args fresh_cache_world)) ''cache.json'' =
       Some \<lparr>content = Doc (cache_record 5000 [(''https://ipinfo.io/ip'', ''1.2.3.4'')]),
             mtime = 5000\<rparr>"
proof -
  have ia: "args_ignore_cache ignoring_args" by (simp add: ignoring_args_def)
  have wr: "writable fresh_cache_world (args_cache_file ignoring_args)"
    by (simp add: fresh_cache_world_def cached_world_def quiet_world_def)
  have ne: "[(''https://ipinfo.io/ip'', ''1.2.3.4'')] \<noteq> []" by simp
  have f: "args_cache_file ignoring_args = ''cache.json''"
    "args_cache_ttl ignoring_args = 3600" "clock fresh_cache_world = 5000"
    by (simp_all add: ignoring_args_def fresh_cache_world_def cached_world_def quiet_world_def)
  have ld: "returned (check_cache_staleness ''cache.json'' 3600 fresh_cache_world) =
      Some (Some (cache_record 4900 [(''https://ipinfo.io/ip'', ''10.0.0.1'')]))"
    using arg_cong [OF fresh_cache_is_loaded, of returned] by (simp add: f)
  from ignore_cache_discards_load [OF ia fresh_cache_is_loaded fresh_cache_world_resolves ne wr]
  have "returned (refresh_public_ips ignoring_args fresh_cache_world) = Some ()
     \<and> files (world_of (refresh_public_ips ignoring_args fresh_cache_world)) ''cache.json'' =
       Some \<lparr>content = Doc (cache_record 5000 [(''https://ipinfo.io/ip'', ''1.2.3.4'')]),
             mtime = 5000\<rparr>"
    by (simp add: f)
  with ld ia show ?thesis by simp
qed

end
